theory Spec2Isabelle
  imports Complex_Main "HOL-Library.AList"
begin

section \<open>Numbers and time\<close>

text \<open>
  The program is TypeScript; every \<^verbatim>\<open>number\<close> is modelled as a \<^typ>\<open>real\<close>
  (prices, token quantities, SOL amounts, percentages, configured periods), and the
  wall clock \<^verbatim>\<open>Date.now()\<close>, a whole number of milliseconds since the epoch,
  as an \<^typ>\<open>int\<close> that every operation reading the clock takes as its argument
  \<open>now\<close>. Rounding, NaN and the infinities of the IEEE doubles are outside the
  model; where the source divides, the place says what a zero divisor does there.
\<close>

section \<open>Position ledger (PortfolioManager)\<close>

datatype PositionStatus = Open | Closed

record Position =
  mint :: string
  tokenName :: string
  tokenSymbol :: string
  entryPrice :: real
  amount :: real
  timestamp :: int
  stopLoss :: real
  takeProfit :: real
  status :: PositionStatus
  exitPrice :: "real option"
  pnl :: "real option"

record Portfolio =
  positions :: "Position list"
  totalInvestedSol :: real
  realizedPnl :: real
  unrealizedPnl :: real

text \<open>The portfolio \<^verbatim>\<open>loadPortfolio\<close> returns when there is no file on disk.\<close>

definition defaultPortfolio :: Portfolio where
  "defaultPortfolio =
     \<lparr>positions = [], totalInvestedSol = 0, realizedPnl = 0, unrealizedPnl = 0\<rparr>"

definition isOpenFor :: "string \<Rightarrow> Position \<Rightarrow> bool" where
  "isOpenFor m p = (mint p = m \<and> status p = Open)"

definition getOpenPositions :: "Portfolio \<Rightarrow> Position list" where
  "getOpenPositions pf = filter (\<lambda>p. status p = Open) (positions pf)"

text \<open>
  \<^verbatim>\<open>getOpenPositionForToken\<close> filters the array and returns its first match, or
  null. The match is a reference into the array, which \<^verbatim>\<open>addPosition\<close> and
  \<^verbatim>\<open>closePosition\<close> then mutate in place; \<open>openIndex\<close> is the index of that
  object, so that the mutation is an update of the list at that index.
\<close>

definition getOpenPositionForToken :: "Portfolio \<Rightarrow> string \<Rightarrow> Position option" where
  "getOpenPositionForToken pf m =
     (case filter (isOpenFor m) (positions pf) of [] \<Rightarrow> None | p # _ \<Rightarrow> Some p)"

fun openIndex :: "Position list \<Rightarrow> string \<Rightarrow> nat option" where
  "openIndex [] m = None"
| "openIndex (p # ps) m =
     (if isOpenFor m p then Some 0 else map_option Suc (openIndex ps m))"

text \<open>
  \<^verbatim>\<open>addPosition\<close>. The merge branch divides by \<open>totalTokens\<close>; for a zero total
  JavaScript stores NaN or an infinity, which \<^typ>\<open>real\<close> cannot hold, so statements
  about the merged entry price are made for a non-zero total. Writing the snapshot to
  disk (\<^verbatim>\<open>savePortfolio\<close>) changes nothing in memory and is left out.
\<close>

definition addPosition ::
  "Portfolio \<Rightarrow> int \<Rightarrow> string \<Rightarrow> string \<Rightarrow> string \<Rightarrow> real \<Rightarrow> real \<Rightarrow> real \<Rightarrow> real \<Rightarrow> real
     \<Rightarrow> Position \<times> Portfolio" where
  "addPosition pf now m tName tSymbol price amt amountSol stopLossPercentage takeProfitPercentage =
     (case openIndex (positions pf) m of
        Some i \<Rightarrow>
          (let existingPosition = positions pf ! i;
               totalTokens = amount existingPosition + amt;
               totalCost = amount existingPosition * entryPrice existingPosition + amountSol;
               newEntry = totalCost / totalTokens;
               updated = existingPosition
                 \<lparr>entryPrice := newEntry,
                  amount := totalTokens,
                  stopLoss := newEntry * (1 - stopLossPercentage / 100),
                  takeProfit := newEntry * (1 + takeProfitPercentage / 100)\<rparr>
           in (updated, pf\<lparr>positions := (positions pf)[i := updated]\<rparr>))
      | None \<Rightarrow>
          (let newPosition =
                 \<lparr>mint = m, tokenName = tName, tokenSymbol = tSymbol,
                  entryPrice = price, amount = amt, timestamp = now,
                  stopLoss = price * (1 - stopLossPercentage / 100),
                  takeProfit = price * (1 + takeProfitPercentage / 100),
                  status = Open, exitPrice = None, pnl = None\<rparr>
           in (newPosition,
               pf\<lparr>positions := positions pf @ [newPosition],
                  totalInvestedSol := totalInvestedSol pf + amountSol\<rparr>)))"

definition closePosition ::
  "Portfolio \<Rightarrow> string \<Rightarrow> real \<Rightarrow> real \<Rightarrow> real \<Rightarrow> Position option \<times> Portfolio" where
  "closePosition pf m exitP amountSold soldPercentage =
     (case openIndex (positions pf) m of
        None \<Rightarrow> (None, pf)
      | Some i \<Rightarrow>
          (let position = positions pf ! i;
               entryValueSol = entryPrice position * amountSold;
               exitValueSol = exitP * amountSold;
               pnlNow = exitValueSol - entryValueSol
           in if soldPercentage \<ge> 100 \<or> amountSold \<ge> amount position
              then (let closed = position
                          \<lparr>status := Closed, exitPrice := Some exitP, pnl := Some pnlNow\<rparr>
                    in (Some closed,
                        pf\<lparr>positions := (positions pf)[i := closed],
                           realizedPnl := realizedPnl pf + pnlNow\<rparr>))
              else (let reduced = position\<lparr>amount := amount position - amountSold\<rparr>
                    in (Some reduced,
                        pf\<lparr>positions := (positions pf)[i := reduced],
                           realizedPnl := realizedPnl pf + pnlNow\<rparr>))))"

text \<open>
  \<^verbatim>\<open>updateUnrealizedPnl\<close>: the price map is a \<^verbatim>\<open>Map<string, number>\<close>; a
  missing or zero price is falsy and the position is skipped.
\<close>

definition positionPnl :: "(string \<rightharpoonup> real) \<Rightarrow> Position \<Rightarrow> real" where
  "positionPnl tokenPrices p =
     (case tokenPrices (mint p) of
        None \<Rightarrow> 0
      | Some currentPrice \<Rightarrow>
          (if currentPrice = 0 then 0
           else currentPrice * amount p - entryPrice p * amount p))"

definition updateUnrealizedPnl :: "Portfolio \<Rightarrow> (string \<rightharpoonup> real) \<Rightarrow> Portfolio" where
  "updateUnrealizedPnl pf tokenPrices =
     pf\<lparr>unrealizedPnl := sum_list (map (positionPnl tokenPrices) (getOpenPositions pf))\<rparr>"

definition getTotalValue :: "Portfolio \<Rightarrow> real" where
  "getTotalValue pf = totalInvestedSol pf + unrealizedPnl pf"

text \<open>
  The ledger invariant: no two open positions carry the same mint; \<open>openCount\<close> is
  the number of open positions of one mint. The mutating operations of the ledger are
  collected in one datatype, so that a history of the ledger is a list of them.
\<close>

definition oneOpenPerMint :: "Portfolio \<Rightarrow> bool" where
  "oneOpenPerMint pf = distinct (map mint (getOpenPositions pf))"

definition openCount :: "Portfolio \<Rightarrow> string \<Rightarrow> nat" where
  "openCount pf m = length (filter (isOpenFor m) (positions pf))"

datatype LedgerOp =
    AddPosition int string string string real real real real real
  | ClosePosition string real real real
  | UpdateUnrealizedPnl "string \<rightharpoonup> real"

fun applyLedgerOp :: "Portfolio \<Rightarrow> LedgerOp \<Rightarrow> Portfolio" where
  "applyLedgerOp pf (AddPosition now m tName tSymbol entry amt amountSol slPct tpPct) =
     snd (addPosition pf now m tName tSymbol entry amt amountSol slPct tpPct)"
| "applyLedgerOp pf (ClosePosition m exitP amountSold soldPercentage) =
     snd (closePosition pf m exitP amountSold soldPercentage)"
| "applyLedgerOp pf (UpdateUnrealizedPnl tokenPrices) = updateUnrealizedPnl pf tokenPrices"

definition runLedger :: "Portfolio \<Rightarrow> LedgerOp list \<Rightarrow> Portfolio" where
  "runLedger pf ops = foldl applyLedgerOp pf ops"

text \<open>
  The ledger after one buy on an empty portfolio: 100 units of token A at price 1, for
  100 SOL, with the default stop-loss and take-profit percentages.
\<close>

definition scenarioPortfolio :: Portfolio where
  "scenarioPortfolio =
     snd (addPosition defaultPortfolio 0 ''A'' ''Token A'' ''TKA'' 1 100 100 10 20)"

section \<open>Risk gate (RiskManager)\<close>

record TradingConfig =
  defaultSlippage :: real
  defaultPriorityFee :: real
  maxTradeAmountSol :: real
  minTradeAmountSol :: real
  stopLossPercentage :: real
  takeProfitPercentage :: real

record RiskManagementConfig =
  maxDailyTradingVolume :: real
  maxPositionSizePercentage :: real

record BotConfig =
  trading :: TradingConfig
  riskManagement :: RiskManagementConfig

text \<open>The defaults of \<^verbatim>\<open>loadConfig\<close>, used when the environment sets nothing.\<close>

definition defaultConfig :: BotConfig where
  "defaultConfig =
     \<lparr>trading =
        \<lparr>defaultSlippage = 1, defaultPriorityFee = 0.00001, maxTradeAmountSol = 0.5,
         minTradeAmountSol = 0.01, stopLossPercentage = 10, takeProfitPercentage = 20\<rparr>,
      riskManagement =
        \<lparr>maxDailyTradingVolume = 5, maxPositionSizePercentage = 5\<rparr>\<rparr>"

text \<open>
  What the wallet answers at the time of a call: \<^verbatim>\<open>getBalance()\<close> in SOL (0 when
  the query fails) and \<^verbatim>\<open>hasToken(mint)\<close> (false when the query fails).
\<close>

record Wallet =
  getBalance :: real
  hasToken :: "string \<Rightarrow> bool"

record RiskManager =
  dailyTradingVolume :: real
  dailyResetTimestamp :: int

definition msPerDay :: int where
  "msPerDay = 86400000"

text \<open>
  The time zone of the process, as the \<^verbatim>\<open>Date\<close> methods of JavaScript see it: the
  offset of local time from UTC, in milliseconds, at a given UTC instant
  (\<^verbatim>\<open>LocalTZA(t, true)\<close> in ECMAScript) and at a given local time
  (\<^verbatim>\<open>LocalTZA(t, false)\<close>; a local time that a forward change of the offset skips
  has the offset from before the change).
\<close>

record TimeZone =
  offsetAtUTC :: "int \<Rightarrow> int"
  offsetAtLocal :: "int \<Rightarrow> int"

definition fixedZone :: "int \<Rightarrow> TimeZone" where
  "fixedZone off = \<lparr>offsetAtUTC = (\<lambda>t. off), offsetAtLocal = (\<lambda>t. off)\<rparr>"

text \<open>
  \<^verbatim>\<open>America/New_York\<close> under the rule in force from November 2024 to November 2025: five
  hours behind UTC until 2025-03-09T07:00:00Z (2 a.m. local time, 1741503600000), four
  hours behind from then on; as a local time value the change ends at 3 a.m. of that day
  (1741489200000).
\<close>

definition newYork2025 :: TimeZone where
  "newYork2025 =
     \<lparr>offsetAtUTC = (\<lambda>t. if t < 1741503600000 then - 18000000 else - 14400000),
      offsetAtLocal = (\<lambda>t. if t < 1741489200000 then - 18000000 else - 14400000)\<rparr>"

text \<open>
  \<^verbatim>\<open>resetDailyVolume\<close> computes the next reset from the clock in two steps.
  \<^verbatim>\<open>setUTCHours(0, 0, 0, 0)\<close> cuts the time to 00:00 UTC of its day.
  \<^verbatim>\<open>setDate(getDate() + 1)\<close> then works in local time: it takes the local time of
  that instant, moves it to the same time of day on the next calendar day (a day number
  past the end of the month runs into the next month), and converts the result back to
  UTC with the offset that holds at the new local time. The comment of the source calls
  the result midnight UTC; \<open>nextMidnightUTC\<close> is the midnight UTC that follows \<open>now\<close>.
  The source reads the clock once in \<^verbatim>\<open>checkDailyReset\<close> and again in
  \<^verbatim>\<open>resetDailyVolume\<close>; the model gives both the value \<open>now\<close>.
\<close>

definition utcStartOfDay :: "int \<Rightarrow> int" where
  "utcStartOfDay t = (t div msPerDay) * msPerDay"

definition setDateToNextDay :: "TimeZone \<Rightarrow> int \<Rightarrow> int" where
  "setDateToNextDay tz t =
     (let localTime = t + offsetAtUTC tz t;
          newDate = localTime + msPerDay
      in newDate - offsetAtLocal tz newDate)"

definition nextResetTime :: "TimeZone \<Rightarrow> int \<Rightarrow> int" where
  "nextResetTime tz now = setDateToNextDay tz (utcStartOfDay now)"

definition nextMidnightUTC :: "int \<Rightarrow> int" where
  "nextMidnightUTC now = utcStartOfDay now + msPerDay"

definition resetDailyVolume :: "TimeZone \<Rightarrow> int \<Rightarrow> RiskManager \<Rightarrow> RiskManager" where
  "resetDailyVolume tz now rm =
     rm\<lparr>dailyTradingVolume := 0, dailyResetTimestamp := nextResetTime tz now\<rparr>"

text \<open>The constructor: both fields 0, then \<^verbatim>\<open>resetDailyVolume()\<close>.\<close>

definition newRiskManager :: "TimeZone \<Rightarrow> int \<Rightarrow> RiskManager" where
  "newRiskManager tz now =
     resetDailyVolume tz now \<lparr>dailyTradingVolume = 0, dailyResetTimestamp = 0\<rparr>"

definition checkDailyReset :: "TimeZone \<Rightarrow> int \<Rightarrow> RiskManager \<Rightarrow> RiskManager" where
  "checkDailyReset tz now rm =
     (if now \<ge> dailyResetTimestamp rm then resetDailyVolume tz now rm else rm)"

definition trackTradeVolume :: "TimeZone \<Rightarrow> int \<Rightarrow> real \<Rightarrow> RiskManager \<Rightarrow> RiskManager" where
  "trackTradeVolume tz now solAmount rm =
     (let rm1 = checkDailyReset tz now rm
      in rm1\<lparr>dailyTradingVolume := dailyTradingVolume rm1 + solAmount\<rparr>)"

definition getDailyTradingVolume :: "TimeZone \<Rightarrow> int \<Rightarrow> RiskManager \<Rightarrow> real \<times> RiskManager" where
  "getDailyTradingVolume tz now rm =
     (let rm1 = checkDailyReset tz now rm in (dailyTradingVolume rm1, rm1))"

datatype TradeAction = Buy | Sell

text \<open>
  The reason of a refusal is a formatted message in the source; the model keeps which
  message it is and the numbers it prints.
\<close>

datatype RiskReason =
    InsufficientBalance real real
  | ExceedsDailyVolumeLimit real
  | BelowMinimum real real
  | ExceedsMaximum real real
  | ExceedsPositionSize real real real
  | TokenNotInWallet string

record RiskCheckResult =
  allowed :: bool
  reason :: "RiskReason option"

definition gasFeeBuffer :: real where
  "gasFeeBuffer = 0.01"

definition maxPositionSizeOf :: "BotConfig \<Rightarrow> Portfolio \<Rightarrow> real" where
  "maxPositionSizeOf cfg pf =
     getTotalValue pf * (maxPositionSizePercentage (riskManagement cfg) / 100)"

definition checkTrade ::
  "TimeZone \<Rightarrow> BotConfig \<Rightarrow> Wallet \<Rightarrow> Portfolio \<Rightarrow> int \<Rightarrow> TradeAction \<Rightarrow> string \<Rightarrow> real \<Rightarrow> RiskManager
     \<Rightarrow> RiskCheckResult \<times> RiskManager" where
  "checkTrade tz cfg wallet pf now action m solAmount rm =
     (let rm1 = checkDailyReset tz now rm in
      ((case action of
         Buy \<Rightarrow>
           (let balance = getBalance wallet in
            if balance < solAmount + gasFeeBuffer then
              \<lparr>allowed = False,
               reason = Some (InsufficientBalance balance (solAmount + gasFeeBuffer))\<rparr>
            else if dailyTradingVolume rm1 + solAmount > maxDailyTradingVolume (riskManagement cfg) then
              \<lparr>allowed = False,
               reason = Some (ExceedsDailyVolumeLimit (maxDailyTradingVolume (riskManagement cfg)))\<rparr>
            else if solAmount < minTradeAmountSol (trading cfg) then
              \<lparr>allowed = False,
               reason = Some (BelowMinimum solAmount (minTradeAmountSol (trading cfg)))\<rparr>
            else if solAmount > maxTradeAmountSol (trading cfg) then
              \<lparr>allowed = False,
               reason = Some (ExceedsMaximum solAmount (maxTradeAmountSol (trading cfg)))\<rparr>
            else if solAmount > maxPositionSizeOf cfg pf then
              \<lparr>allowed = False,
               reason = Some (ExceedsPositionSize solAmount
                  (maxPositionSizePercentage (riskManagement cfg)) (maxPositionSizeOf cfg pf))\<rparr>
            else \<lparr>allowed = True, reason = None\<rparr>)
       | Sell \<Rightarrow>
           (if \<not> hasToken wallet m then
              \<lparr>allowed = False, reason = Some (TokenNotInWallet m)\<rparr>
            else \<lparr>allowed = True, reason = None\<rparr>)),
       rm1))"

definition getOptimalTradeSize ::
  "TimeZone \<Rightarrow> BotConfig \<Rightarrow> Wallet \<Rightarrow> Portfolio \<Rightarrow> int \<Rightarrow> string \<Rightarrow> RiskManager
     \<Rightarrow> real \<times> RiskManager" where
  "getOptimalTradeSize tz cfg wallet pf now m rm =
     (let balance = getBalance wallet;
          availableBalance = max 0 (balance - gasFeeBuffer);
          maxPositionSize = maxPositionSizeOf cfg pf;
          (volume, rm1) = getDailyTradingVolume tz now rm;
          remainingDailyAllowance = maxDailyTradingVolume (riskManagement cfg) - volume;
          optimalSize = min availableBalance (min maxPositionSize
                          (min remainingDailyAllowance (maxTradeAmountSol (trading cfg))))
      in if optimalSize < minTradeAmountSol (trading cfg) then (0, rm1)
         else (case getOpenPositionForToken pf m of
                 Some position \<Rightarrow> (optimalSize * 0.5, rm1)
               | None \<Rightarrow> (optimalSize, rm1)))"

text \<open>
  States used to run the risk gate: the risk manager created at time 0 in a process
  running on UTC, after three buys of 2 SOL were tracked; a wallet with 10 SOL that holds
  token A; and a wallet whose balance query gives 0.
\<close>

definition spentRiskManager :: RiskManager where
  "spentRiskManager =
     trackTradeVolume (fixedZone 0) 3000 2
       (trackTradeVolume (fixedZone 0) 2000 2
          (trackTradeVolume (fixedZone 0) 1000 2 (newRiskManager (fixedZone 0) 0)))"

definition richWallet :: Wallet where
  "richWallet = \<lparr>getBalance = 10, hasToken = (\<lambda>m. m = ''A'')\<rparr>"

definition emptyWallet :: Wallet where
  "emptyWallet = \<lparr>getBalance = 0, hasToken = (\<lambda>m. False)\<rparr>"

section \<open>Market events\<close>

text \<open>
  The events of \<^verbatim>\<open>types/index.ts\<close>. A \<^verbatim>\<open>WebSocketEvent\<close> is a type tag and a
  payload; the two tags the strategies read have typed payloads, every other tag is
  \<open>OtherEvent\<close>. The fields of the payloads carry the prefixes \<open>nt\<close> and \<open>tt\<close>,
  since a field name is a constant of the theory and \<open>mint\<close> is the position's.
\<close>

record NewTokenData =
  ntMint :: string
  ntName :: string
  ntSymbol :: string
  createdAt :: real
  creatorAddress :: string

record TokenTradeData =
  ttMint :: string
  ttAction :: TradeAction
  ttPrice :: real
  ttAmountSol :: real
  ttTrader :: string
  ttSignature :: string
  ttTimestamp :: real
  ttSymbol :: "string option"

datatype WebSocketEvent =
    NewTokenEvent NewTokenData
  | TokenTradeEvent TokenTradeData
  | OtherEvent string

text \<open>
  Events for running the strategies: a trade of 0.2 SOL of token A at a given price and
  timestamp, a new token, and a trade of token B.
\<close>

definition tradeOfA :: "real \<Rightarrow> real \<Rightarrow> TokenTradeData" where
  "tradeOfA p t =
     \<lparr>ttMint = ''A'', ttAction = Buy, ttPrice = p, ttAmountSol = 1 / 5, ttTrader = ''trader'',
      ttSignature = ''sig'', ttTimestamp = t, ttSymbol = None\<rparr>"

definition newTokenOf :: "string \<Rightarrow> real \<Rightarrow> NewTokenData" where
  "newTokenOf m t =
     \<lparr>ntMint = m, ntName = ''Some Token'', ntSymbol = ''TKN'', createdAt = t,
      creatorAddress = ''creator''\<rparr>"

definition tradeOfB :: "real \<Rightarrow> real \<Rightarrow> TokenTradeData" where
  "tradeOfB p t =
     \<lparr>ttMint = ''B'', ttAction = Buy, ttPrice = p, ttAmountSol = 1 / 5, ttTrader = ''trader'',
      ttSignature = ''sig'', ttTimestamp = t, ttSymbol = None\<rparr>"

text \<open>What a strategy throws; the pipeline catches every exception alike.\<close>

datatype JsError = TypeError | Error string

text \<open>The fields every strategy class has (\<^verbatim>\<open>interface TradingStrategy\<close>).\<close>

record StrategyFields =
  name :: string
  description :: string
  isEnabled :: bool

record EntryStrategyFields = StrategyFields +
  defaultTradeAmount :: real

section \<open>Entry strategy on new tokens (SniperStrategy)\<close>

record SniperStrategy = EntryStrategyFields +
  maxAgeMs :: real
  blockedCreators :: "string set"
  blockedPhrases :: "string list"
  minTradeAmount :: real
  processed :: "string set"

text \<open>
  \<^verbatim>\<open>String.prototype.toLowerCase\<close> on the ASCII letters, and
  \<^verbatim>\<open>String.prototype.includes\<close> (\<open>includesStr\<close>): the phrase occurs as a contiguous substring.
\<close>

definition toLowerChar :: "char \<Rightarrow> char" where
  "toLowerChar c =
     (let n = (of_char c :: nat) in if 65 \<le> n \<and> n \<le> 90 then char_of (n + 32) else c)"

definition toLowerCase :: "string \<Rightarrow> string" where
  "toLowerCase s = map toLowerChar s"

fun includesStr :: "string \<Rightarrow> string \<Rightarrow> bool" where
  "includesStr [] phrase = (phrase = [])"
| "includesStr (c # cs) phrase =
     (take (length phrase) (c # cs) = phrase \<or> includesStr cs phrase)"

definition Sniper_shouldTrade ::
  "SniperStrategy \<Rightarrow> int \<Rightarrow> WebSocketEvent \<Rightarrow> bool \<times> SniperStrategy" where
  "Sniper_shouldTrade s now event =
     (if \<not> isEnabled s then (False, s)
      else (case event of
          NewTokenEvent d \<Rightarrow>
            (if ntMint d \<in> processed s then (False, s)
             else if real_of_int now - createdAt d > maxAgeMs s then (False, s)
             else if creatorAddress d \<in> blockedCreators s then (False, s)
             else (let tokenText = toLowerCase (ntName d) @ '' '' @ toLowerCase (ntSymbol d)
                   in if list_ex (\<lambda>phrase. includesStr tokenText (toLowerCase phrase))
                           (blockedPhrases s)
                      then (False, s)
                      else (True, s\<lparr>processed := insert (ntMint d) (processed s)\<rparr>)))
        | TokenTradeEvent d \<Rightarrow> (False, s)
        | OtherEvent t \<Rightarrow> (False, s)))"

text \<open>The state the constructor leaves.\<close>

definition newSniperStrategy :: "BotConfig \<Rightarrow> SniperStrategy" where
  "newSniperStrategy cfg =
     \<lparr>name = ''Sniper'',
      description = ''Quickly buys newly created tokens based on configurable criteria'',
      isEnabled = True,
      defaultTradeAmount = 0.1,
      maxAgeMs = 30000,
      blockedCreators = {},
      blockedPhrases = [],
      minTradeAmount = minTradeAmountSol (trading cfg),
      processed = {}\<rparr>"

text \<open>
  A sequence of invocations, each with the clock value it reads: the mints of the
  events the strategy accepted, in order, and the state it ends in.
\<close>

fun Sniper_run ::
  "SniperStrategy \<Rightarrow> (int \<times> WebSocketEvent) list \<Rightarrow> string list \<times> SniperStrategy" where
  "Sniper_run s [] = ([], s)"
| "Sniper_run s ((now, event) # rest) =
     (case Sniper_shouldTrade s now event of
        (True, s1) \<Rightarrow>
          (case event of
             NewTokenEvent d \<Rightarrow> (ntMint d # fst (Sniper_run s1 rest), snd (Sniper_run s1 rest))
           | _ \<Rightarrow> Sniper_run s1 rest)
      | (False, s1) \<Rightarrow> Sniper_run s1 rest)"

section \<open>Exit strategy (PositionManagementStrategy)\<close>

record PositionManagementStrategy = StrategyFields +
  currentPrices :: "string \<rightharpoonup> real"
  lastProcessedTime :: "string \<rightharpoonup> int"
  minProcessingIntervalMs :: real

definition updateTokenPrice ::
  "string \<Rightarrow> real \<Rightarrow> PositionManagementStrategy \<Rightarrow> PositionManagementStrategy" where
  "updateTokenPrice m price s = s\<lparr>currentPrices := (currentPrices s)(m \<mapsto> price)\<rparr>"

text \<open>The rate limiter: \<^verbatim>\<open>lastProcessedTime.get(mint) || 0\<close> is 0 for a new mint.\<close>

definition shouldProcessToken ::
  "int \<Rightarrow> string \<Rightarrow> PositionManagementStrategy \<Rightarrow> bool \<times> PositionManagementStrategy" where
  "shouldProcessToken now m s =
     (let lastProcessed = (case lastProcessedTime s m of None \<Rightarrow> 0 | Some t \<Rightarrow> t)
      in if real_of_int (now - lastProcessed) < minProcessingIntervalMs s then (False, s)
         else (True, s\<lparr>lastProcessedTime := (lastProcessedTime s)(m \<mapsto> now)\<rparr>))"

definition shouldExitPosition :: "Position \<Rightarrow> real \<Rightarrow> bool" where
  "shouldExitPosition position currentPrice =
     (if status position \<noteq> Open then False
      else if currentPrice \<le> stopLoss position then True
      else if currentPrice \<ge> takeProfit position then True
      else False)"

definition PositionManagement_shouldTrade ::
  "Portfolio \<Rightarrow> PositionManagementStrategy \<Rightarrow> int \<Rightarrow> WebSocketEvent
     \<Rightarrow> bool \<times> PositionManagementStrategy" where
  "PositionManagement_shouldTrade pf s now event =
     (if \<not> isEnabled s then (False, s)
      else (case event of
          TokenTradeEvent d \<Rightarrow>
            (let s1 = updateTokenPrice (ttMint d) (ttPrice d) s
             in (case getOpenPositionForToken pf (ttMint d) of
                   None \<Rightarrow> (False, s1)
                 | Some position \<Rightarrow>
                     (case shouldProcessToken now (ttMint d) s1 of
                        (False, s2) \<Rightarrow> (False, s2)
                      | (True, s2) \<Rightarrow> (shouldExitPosition position (ttPrice d), s2))))
        | NewTokenEvent d \<Rightarrow> (False, s)
        | OtherEvent t \<Rightarrow> (False, s)))"

definition updatePortfolioPnL :: "PositionManagementStrategy \<Rightarrow> Portfolio \<Rightarrow> Portfolio" where
  "updatePortfolioPnL s pf = updateUnrealizedPnl pf (currentPrices s)"

text \<open>The state the constructor leaves.\<close>

definition newPositionManagementStrategy :: PositionManagementStrategy where
  "newPositionManagementStrategy =
     \<lparr>name = ''Position Management'',
      description =
        ''Monitors open positions and manages exits based on stop loss, take profit, or other criteria'',
      isEnabled = True,
      currentPrices = Map.empty, lastProcessedTime = Map.empty,
      minProcessingIntervalMs = 1000 * 10\<rparr>"

section \<open>Entry strategy on momentum (MomentumStrategy)\<close>

record TokenTrade =
  action :: TradeAction
  price :: real
  amountSol :: real
  trader :: string
  tradeTimestamp :: real

record TokenData =
  trades :: "TokenTrade list"
  lastBuyAttempt :: real
  symbol :: string

text \<open>
  \<open>tokenData\<close> is a \<^verbatim>\<open>Map<string, TokenData>\<close>: an association list in insertion
  order, read with \<^const>\<open>map_of\<close>, written with \<^const>\<open>AList.update\<close> (a present key
  keeps its place, a new key goes last, as \<^verbatim>\<open>Map.set\<close> does); the sweep iterates over
  it and deletes entries.
\<close>

record MomentumStrategy = EntryStrategyFields +
  tokenData :: "(string \<times> TokenData) list"
  lastCleanupTime :: int
  cleanupIntervalMs :: real
  minTradeCount :: real
  timeWindowMs :: real
  minVolumeThreshold :: real
  priceIncreaseThreshold :: real
  cooldownPeriodMs :: real

text \<open>The state the constructor leaves, at clock value \<open>now\<close>.\<close>

definition newMomentumStrategy :: "int \<Rightarrow> MomentumStrategy" where
  "newMomentumStrategy now =
     \<lparr>name = ''Momentum'',
      description =
        ''Trades tokens showing strong price momentum based on volume and price action'',
      isEnabled = True,
      defaultTradeAmount = 0.1,
      tokenData = [],
      lastCleanupTime = now,
      cleanupIntervalMs = 1000 * 60 * 5,
      minTradeCount = 5,
      timeWindowMs = 1000 * 60 * 5,
      minVolumeThreshold = 0.5,
      priceIncreaseThreshold = 5,
      cooldownPeriodMs = 1000 * 60 * 10\<rparr>"

definition hasRecentTrades :: "real \<Rightarrow> TokenData \<Rightarrow> bool" where
  "hasRecentTrades cutoffTime data =
     list_ex (\<lambda>trade. tradeTimestamp trade > cutoffTime) (trades data)"

definition cleanupOldData :: "int \<Rightarrow> MomentumStrategy \<Rightarrow> MomentumStrategy" where
  "cleanupOldData now s =
     (if real_of_int (now - lastCleanupTime s) < cleanupIntervalMs s then s
      else (let cutoffTime = real_of_int now - timeWindowMs s - 60 * 60 * 1000
            in s\<lparr>lastCleanupTime := now,
                 tokenData := filter (\<lambda>(m, data). hasRecentTrades cutoffTime data) (tokenData s)\<rparr>))"

text \<open>
  \<^verbatim>\<open>updateTokenData\<close>: the trade is pushed, the array is sorted newest first (the
  comparator \<^verbatim>\<open>b.timestamp - a.timestamp\<close> under JavaScript's stable sort is a stable
  ascending sort on the negated timestamp), and cut to its first 100 entries. An absent
  or empty \<^verbatim>\<open>symbol\<close> is falsy and leaves the stored symbol.
\<close>

definition maxTradeHistory :: nat where
  "maxTradeHistory = 100"

definition updateTokenData :: "TokenTradeData \<Rightarrow> MomentumStrategy \<Rightarrow> MomentumStrategy" where
  "updateTokenData d s =
     (let data0 = (case map_of (tokenData s) (ttMint d) of
                     None \<Rightarrow> \<lparr>trades = [], lastBuyAttempt = 0, symbol = []\<rparr>
                   | Some data \<Rightarrow> data);
          pushed = trades data0 @
                     [\<lparr>action = ttAction d, price = ttPrice d, amountSol = ttAmountSol d,
                       trader = ttTrader d, tradeTimestamp = ttTimestamp d\<rparr>];
          ordered = sort_key (\<lambda>trade. - tradeTimestamp trade) pushed;
          trimmed = (if length ordered > maxTradeHistory then take maxTradeHistory ordered
                     else ordered);
          data1 = data0\<lparr>trades := trimmed\<rparr>;
          data2 = (case ttSymbol d of
                     None \<Rightarrow> data1
                   | Some newSymbol \<Rightarrow>
                       if newSymbol = [] then data1 else data1\<lparr>symbol := newSymbol\<rparr>)
      in s\<lparr>tokenData := AList.update (ttMint d) data2 (tokenData s)\<rparr>)"

text \<open>
  The price test of \<^verbatim>\<open>checkMomentum\<close>,
  \<^verbatim>\<open>((newestPrice - oldestPrice) / oldestPrice) * 100 < priceIncreaseThreshold\<close>.
  For an oldest price of 0 JavaScript computes an infinity or NaN: the quotient is
  +Infinity for a positive newest price, NaN for 0 and -Infinity for a negative one, and
  of these only -Infinity is below the threshold.
\<close>

definition priceIncreaseBelow :: "real \<Rightarrow> real \<Rightarrow> real \<Rightarrow> bool" where
  "priceIncreaseBelow newestPrice oldestPrice threshold =
     (if oldestPrice = 0 then newestPrice < 0
      else ((newestPrice - oldestPrice) / oldestPrice) * 100 < threshold)"

text \<open>
  \<^verbatim>\<open>checkMomentum\<close>. With no trade in the window (possible once the configured
  minimum count and volume are not positive) the read
  \<^verbatim>\<open>recentTrades[recentTrades.length - 1].price\<close> throws a TypeError.
\<close>

definition checkMomentum ::
  "int \<Rightarrow> string \<Rightarrow> MomentumStrategy \<Rightarrow> (JsError + bool) \<times> MomentumStrategy" where
  "checkMomentum now m s =
     (case map_of (tokenData s) m of
        None \<Rightarrow> (Inr False, s)
      | Some data \<Rightarrow>
          (if real_of_int now - lastBuyAttempt data < cooldownPeriodMs s then (Inr False, s)
           else (let recentTrades =
                       filter (\<lambda>trade. real_of_int now - tradeTimestamp trade < timeWindowMs s)
                         (trades data)
                 in if real (length recentTrades) < minTradeCount s then (Inr False, s)
                    else if sum_list (map amountSol recentTrades) < minVolumeThreshold s
                      then (Inr False, s)
                    else (case recentTrades of
                            [] \<Rightarrow> (Inl TypeError, s)
                          | newest # _ \<Rightarrow>
                              (if priceIncreaseBelow (price newest) (price (last recentTrades))
                                    (priceIncreaseThreshold s)
                               then (Inr False, s)
                               else (Inr True,
                                     s\<lparr>tokenData :=
                                         AList.update m (data\<lparr>lastBuyAttempt := real_of_int now\<rparr>)
                                           (tokenData s)\<rparr>))))))"

text \<open>
  \<^verbatim>\<open>shouldTrade\<close>. The calls it makes read the clock one after the other without
  suspending; the model gives them the one value \<open>now\<close>.
\<close>

definition Momentum_shouldTrade ::
  "MomentumStrategy \<Rightarrow> int \<Rightarrow> WebSocketEvent \<Rightarrow> (JsError + bool) \<times> MomentumStrategy" where
  "Momentum_shouldTrade s now event =
     (if \<not> isEnabled s then (Inr False, s)
      else (case event of
          TokenTradeEvent d \<Rightarrow>
            checkMomentum now (ttMint d) (cleanupOldData now (updateTokenData d s))
        | NewTokenEvent d \<Rightarrow> (Inr False, s)
        | OtherEvent t \<Rightarrow> (Inr False, s)))"

text \<open>The state after a sequence of invocations, each with the clock value it reads.\<close>

fun Momentum_run :: "MomentumStrategy \<Rightarrow> (int \<times> WebSocketEvent) list \<Rightarrow> MomentumStrategy" where
  "Momentum_run s [] = s"
| "Momentum_run s ((now, event) # rest) =
     Momentum_run (snd (Momentum_shouldTrade s now event)) rest"

text \<open>
  \<^verbatim>\<open>configure({cooldownPeriodMinutes: minutes})\<close>: of the parameters of
  \<^verbatim>\<open>configure\<close>, each of which overwrites one field, the one the cooldown depends on.
\<close>

definition Momentum_configureCooldown :: "real \<Rightarrow> MomentumStrategy \<Rightarrow> MomentumStrategy" where
  "Momentum_configureCooldown minutes s = s\<lparr>cooldownPeriodMs := minutes * 60 * 1000\<rparr>"

text \<open>
  The cooldown of mint \<open>m\<close> is stamped at \<open>t0\<close>: the mint has an entry whose last buy
  attempt is \<open>t0\<close> and which holds a trade that was inside the analysis window at \<open>t0\<close>
  (as every entry does in which momentum was just detected).
\<close>

definition cooldownStamped :: "MomentumStrategy \<Rightarrow> string \<Rightarrow> int \<Rightarrow> bool" where
  "cooldownStamped s m t0 =
     (case map_of (tokenData s) m of
        None \<Rightarrow> False
      | Some data \<Rightarrow>
          lastBuyAttempt data = real_of_int t0 \<and>
          list_ex (\<lambda>trade. real_of_int t0 - tradeTimestamp trade < timeWindowMs s) (trades data))"

text \<open>
  Four trades of token A, one second apart from time \<open>t\<close> on, 0.2 SOL each, with the
  price rising from 1.00 to 1.05; each event carries its arrival time as its timestamp.
\<close>

definition fourTradesOfA :: "int \<Rightarrow> (int \<times> WebSocketEvent) list" where
  "fourTradesOfA t =
     [(t, TokenTradeEvent (tradeOfA 1 (real_of_int t))),
      (t + 1000, TokenTradeEvent (tradeOfA (101 / 100) (real_of_int (t + 1000)))),
      (t + 2000, TokenTradeEvent (tradeOfA (103 / 100) (real_of_int (t + 2000)))),
      (t + 3000, TokenTradeEvent (tradeOfA (105 / 100) (real_of_int (t + 3000))))]"

section \<open>Strategy pipeline (StrategyManager)\<close>








section \<open>Properties of the position ledger\<close>

subsection \<open>The open position of a mint\<close>

lemma openIndex_None_iff: "openIndex ps m = None \<longleftrightarrow> filter (isOpenFor m) ps = []"
  by (induction ps) auto

lemma openIndex_Some_props:
  "openIndex ps m = Some i \<Longrightarrow>
     i < length ps \<and> isOpenFor m (ps ! i) \<and> (\<forall>j<i. \<not> isOpenFor m (ps ! j)) \<and>
     filter (isOpenFor m) ps = ps ! i # filter (isOpenFor m) (drop (Suc i) ps)"
proof (induction ps arbitrary: i)
  case Nil
  then show ?case by simp
next
  case (Cons p ps)
  show ?case
  proof (cases "isOpenFor m p")
    case True
    with Cons.prems show ?thesis by simp
  next
    case False
    with Cons.prems obtain k where k: "openIndex ps m = Some k" "i = Suc k"
      by auto
    from Cons.IH[OF k(1)] False k(2) show ?thesis
      by (auto simp: less_Suc_eq_0_disj)
  qed
qed

lemma getOpenPositionForToken_openIndex:
  "getOpenPositionForToken pf m = map_option (\<lambda>i. positions pf ! i) (openIndex (positions pf) m)"
proof (cases "openIndex (positions pf) m")
  case None
  then show ?thesis by (simp add: getOpenPositionForToken_def openIndex_None_iff)
next
  case (Some i)
  from openIndex_Some_props[OF Some] show ?thesis
    by (simp add: getOpenPositionForToken_def Some)
qed

lemma getOpenPositionForToken_SomeD:
  assumes "getOpenPositionForToken pf m = Some p"
  obtains i where "openIndex (positions pf) m = Some i" "i < length (positions pf)"
    "positions pf ! i = p" "mint p = m" "status p = Open"
    "\<forall>j<i. \<not> isOpenFor m (positions pf ! j)"
proof -
  from assms obtain i where i: "openIndex (positions pf) m = Some i" "positions pf ! i = p"
    by (auto simp: getOpenPositionForToken_openIndex)
  from openIndex_Some_props[OF i(1)] i(2) that i(1) show thesis
    by (auto simp: isOpenFor_def)
qed

lemma openIndex_update_still_open:
  assumes "openIndex ps m = Some i" "isOpenFor m q"
  shows "openIndex (ps[i := q]) m = Some i"
  using assms
proof (induction ps arbitrary: i)
  case Nil
  then show ?case by simp
next
  case (Cons p ps)
  then show ?case by (cases i) (auto split: if_splits)
qed


subsection \<open>The invariant under the operations\<close>

lemma filter_isOpenFor_length:
  "length (filter (isOpenFor m) ps) = count_list (map mint (filter (\<lambda>p. status p = Open) ps)) m"
  by (induction ps) (auto simp: isOpenFor_def)

lemma distinct_iff_count_le_1: "distinct xs \<longleftrightarrow> (\<forall>x. count_list xs x \<le> 1)"
proof (induction xs)
  case Nil
  then show ?case by simp
next
  case (Cons a xs)
  show ?case
  proof
    assume d: "distinct (a # xs)"
    then have "count_list xs a = 0" by (simp add: count_list_0_iff)
    with d Cons show "\<forall>x. count_list (a # xs) x \<le> 1" by auto
  next
    assume c: "\<forall>x. count_list (a # xs) x \<le> 1"
    then have "count_list (a # xs) a \<le> 1" by blast
    then have "a \<notin> set xs" by (simp add: count_list_0_iff)
    moreover have "\<forall>x. count_list xs x \<le> 1"
    proof
      fix x from c have "count_list (a # xs) x \<le> 1" by blast
      then show "count_list xs x \<le> 1" by (simp split: if_splits)
    qed
    ultimately show "distinct (a # xs)" using Cons by simp
  qed
qed

lemma oneOpenPerMint_iff_openCount: "oneOpenPerMint pf \<longleftrightarrow> (\<forall>m. openCount pf m \<le> 1)"
  by (simp add: oneOpenPerMint_def openCount_def getOpenPositions_def
      filter_isOpenFor_length distinct_iff_count_le_1)

lemma open_mints_update_same:
  assumes "i < length ps" "mint q = mint (ps ! i)" "status q = status (ps ! i)"
  shows "map mint (filter (\<lambda>p. status p = Open) (ps[i := q])) =
         map mint (filter (\<lambda>p. status p = Open) ps)"
  using assms
proof (induction ps arbitrary: i)
  case Nil
  then show ?case by simp
next
  case (Cons p ps)
  then show ?case by (cases i) auto
qed

lemma isOpenFor_filter_update_same:
  assumes "i < length ps" "mint q = mint (ps ! i)" "status q = status (ps ! i)"
  shows "length (filter (isOpenFor m) (ps[i := q])) = length (filter (isOpenFor m) ps)"
  using assms
proof (induction ps arbitrary: i)
  case Nil
  then show ?case by simp
next
  case (Cons p ps)
  then show ?case by (cases i) (auto simp: isOpenFor_def)
qed

lemma open_mints_update_closed_subset:
  assumes "status q \<noteq> Open"
  shows "set (map mint (filter (\<lambda>p. status p = Open) (ps[i := q])))
           \<subseteq> set (map mint (filter (\<lambda>p. status p = Open) ps))"
  using assms
proof (induction ps arbitrary: i)
  case Nil
  then show ?case by simp
next
  case (Cons p ps)
  show ?case
  proof (cases i)
    case 0
    with Cons.prems show ?thesis by auto
  next
    case (Suc k)
    with Cons.IH[OF Cons.prems, of k] show ?thesis by auto
  qed
qed

lemma open_mints_update_closed_distinct:
  assumes "status q \<noteq> Open" "distinct (map mint (filter (\<lambda>p. status p = Open) ps))"
  shows "distinct (map mint (filter (\<lambda>p. status p = Open) (ps[i := q])))"
  using assms
proof (induction ps arbitrary: i)
  case Nil
  then show ?case by simp
next
  case (Cons p ps)
  show ?case
  proof (cases i)
    case 0
    with Cons.prems show ?thesis by (auto split: if_splits)
  next
    case (Suc k)
    from Cons.prems have d: "distinct (map mint (filter (\<lambda>p. status p = Open) ps))"
      by (auto split: if_splits)
    note ih = Cons.IH[OF Cons.prems(1) d, of k]
    from open_mints_update_closed_subset[OF Cons.prems(1), of ps k] Cons.prems(2) ih Suc
    show ?thesis by (auto split: if_splits)
  qed
qed

lemma addPosition_preserves:
  assumes "oneOpenPerMint pf"
  shows "oneOpenPerMint (snd (addPosition pf now m tName tSymbol entry amt sol slPct tpPct))"
proof (cases "openIndex (positions pf) m")
  case None
  then have "filter (isOpenFor m) (positions pf) = []"
    by (simp add: openIndex_None_iff)
  then have "m \<notin> mint ` {p \<in> set (positions pf). status p = Open}"
    by (auto simp: filter_empty_conv isOpenFor_def)
  with assms None show ?thesis
    by (simp add: addPosition_def oneOpenPerMint_def getOpenPositions_def Let_def)
next
  case (Some i)
  from openIndex_Some_props[OF Some] have "i < length (positions pf)" by simp
  with assms Some show ?thesis
    by (simp add: addPosition_def oneOpenPerMint_def getOpenPositions_def Let_def
        open_mints_update_same)
qed

lemma closePosition_preserves:
  assumes "oneOpenPerMint pf"
  shows "oneOpenPerMint (snd (closePosition pf m exitP amountSold soldPct))"
proof (cases "openIndex (positions pf) m")
  case None
  with assms show ?thesis by (simp add: closePosition_def)
next
  case (Some i)
  from openIndex_Some_props[OF Some] have "i < length (positions pf)" by simp
  with assms Some show ?thesis
    by (simp add: closePosition_def oneOpenPerMint_def getOpenPositions_def Let_def
        open_mints_update_same open_mints_update_closed_distinct)
qed

lemma updateUnrealizedPnl_preserves:
  "oneOpenPerMint (updateUnrealizedPnl pf tokenPrices) = oneOpenPerMint pf"
  by (simp add: updateUnrealizedPnl_def oneOpenPerMint_def getOpenPositions_def)

lemma applyLedgerOp_preserves:
  "oneOpenPerMint pf \<Longrightarrow> oneOpenPerMint (applyLedgerOp pf op)"
  by (cases op)
    (simp_all add: addPosition_preserves closePosition_preserves updateUnrealizedPnl_preserves)

lemma runLedger_preserves:
  "oneOpenPerMint pf \<Longrightarrow> oneOpenPerMint (runLedger pf ops)"
  unfolding runLedger_def
  by (induction ops arbitrary: pf) (simp_all add: applyLedgerOp_preserves)

lemma openCount_append_new:
  assumes "openIndex ps m = None" "mint q = m" "status q = Open"
  shows "length (filter (isOpenFor m) (ps @ [q])) = 1"
  using assms by (simp add: openIndex_None_iff isOpenFor_def)


lemma scenarioPortfolio_eq:
  "scenarioPortfolio =
     \<lparr>positions = [\<lparr>mint = ''A'', tokenName = ''Token A'', tokenSymbol = ''TKA'',
                     entryPrice = 1, amount = 100, timestamp = 0, stopLoss = 9 / 10,
                     takeProfit = 6 / 5, status = Open, exitPrice = None, pnl = None\<rparr>],
      totalInvestedSol = 100, realizedPnl = 0, unrealizedPnl = 0\<rparr>"
  by (simp add: scenarioPortfolio_def addPosition_def defaultPortfolio_def Let_def)


text \<open>
  Claim C3. At most one position with status open exists per mint, and every ledger
  operation preserves this: the empty portfolio has the property, and any history of
  \<^verbatim>\<open>addPosition\<close>, \<^verbatim>\<open>closePosition\<close> and \<^verbatim>\<open>updateUnrealizedPnl\<close> calls keeps it.
  \<^verbatim>\<open>addPosition\<close> on a mint with no open position appends exactly one new open
  position, with the supplied price as entry price, stop-loss
  \<open>price * (1 - stopLossPct / 100)\<close> and take-profit \<open>price * (1 + takeProfitPct / 100)\<close>.
  \<^verbatim>\<open>addPosition\<close> on a mint with an open position \<open>p\<close> updates that record in place:
  the quantity becomes \<open>q1 + q2\<close>, the entry price \<open>(q1 * p1 + sol2) / (q1 + q2)\<close> (for a
  non-zero total, see \<open>addPosition\<close>), stop-loss and take-profit are recomputed from the
  new entry price and the supplied percentages, and the number of open positions of
  every mint is what it was: no second open record is created. The invariant says that
  every mint has at most one open position.
\<close>

theorem addPosition_one_open_per_mint:
  "oneOpenPerMint defaultPortfolio \<and>
   (oneOpenPerMint pf \<longrightarrow> oneOpenPerMint (runLedger pf ops)) \<and>
   (getOpenPositionForToken pf m = None \<longrightarrow>
      (\<exists>p'. addPosition pf now m tName tSymbol entry amt sol slPct tpPct =
              (p', pf\<lparr>positions := positions pf @ [p'],
                      totalInvestedSol := totalInvestedSol pf + sol\<rparr>) \<and>
            mint p' = m \<and> status p' = Open \<and> entryPrice p' = entry \<and> amount p' = amt \<and>
            stopLoss p' = entry * (1 - slPct / 100) \<and>
            takeProfit p' = entry * (1 + tpPct / 100) \<and>
            openCount (snd (addPosition pf now m tName tSymbol entry amt sol slPct tpPct)) m = 1)) \<and>
   (\<forall>p. getOpenPositionForToken pf m = Some p \<longrightarrow>
      (\<exists>i<length (positions pf). \<exists>p'.
          positions pf ! i = p \<and>
          fst (addPosition pf now m tName tSymbol entry amt sol slPct tpPct) = p' \<and>
          positions (snd (addPosition pf now m tName tSymbol entry amt sol slPct tpPct))
            = (positions pf)[i := p'] \<and>
          mint p' = m \<and> status p' = Open \<and> amount p' = amount p + amt \<and>
          (amount p + amt \<noteq> 0 \<longrightarrow>
             entryPrice p' = (amount p * entryPrice p + sol) / (amount p + amt)) \<and>
          stopLoss p' = entryPrice p' * (1 - slPct / 100) \<and>
          takeProfit p' = entryPrice p' * (1 + tpPct / 100) \<and>
          (\<forall>m'. openCount (snd (addPosition pf now m tName tSymbol entry amt sol slPct tpPct)) m'
                 = openCount pf m'))) \<and>
   (oneOpenPerMint pf \<longleftrightarrow> (\<forall>m'. openCount pf m' \<le> 1))"
proof (intro conjI allI impI)
  show "oneOpenPerMint pf \<longleftrightarrow> (\<forall>m'. openCount pf m' \<le> 1)"
    by (rule oneOpenPerMint_iff_openCount)
next
  show "oneOpenPerMint defaultPortfolio"
    by (simp add: oneOpenPerMint_def defaultPortfolio_def getOpenPositions_def)
next
  assume "oneOpenPerMint pf"
  then show "oneOpenPerMint (runLedger pf ops)" by (rule runLedger_preserves)
next
  assume "getOpenPositionForToken pf m = None"
  then have none: "openIndex (positions pf) m = None"
    by (simp add: getOpenPositionForToken_openIndex)
  let ?p = "\<lparr>mint = m, tokenName = tName, tokenSymbol = tSymbol,
                  entryPrice = entry, amount = amt, timestamp = now,
                  stopLoss = entry * (1 - slPct / 100),
                  takeProfit = entry * (1 + tpPct / 100),
                  status = Open, exitPrice = None, pnl = None\<rparr>"
  have eq: "addPosition pf now m tName tSymbol entry amt sol slPct tpPct =
              (?p, pf\<lparr>positions := positions pf @ [?p],
                      totalInvestedSol := totalInvestedSol pf + sol\<rparr>)"
    using none by (simp add: addPosition_def Let_def)
  have "openCount (snd (addPosition pf now m tName tSymbol entry amt sol slPct tpPct)) m = 1"
    using openCount_append_new[OF none, of ?p] by (simp add: eq openCount_def)
  with eq show "\<exists>p'. addPosition pf now m tName tSymbol entry amt sol slPct tpPct =
              (p', pf\<lparr>positions := positions pf @ [p'],
                      totalInvestedSol := totalInvestedSol pf + sol\<rparr>) \<and>
            mint p' = m \<and> status p' = Open \<and> entryPrice p' = entry \<and> amount p' = amt \<and>
            stopLoss p' = entry * (1 - slPct / 100) \<and>
            takeProfit p' = entry * (1 + tpPct / 100) \<and>
            openCount (snd (addPosition pf now m tName tSymbol entry amt sol slPct tpPct)) m = 1"
    by (intro exI[of _ ?p]) simp
next
  fix p
  assume "getOpenPositionForToken pf m = Some p"
  then obtain i where i: "openIndex (positions pf) m = Some i" "i < length (positions pf)"
    "positions pf ! i = p" "mint p = m" "status p = Open"
    by (rule getOpenPositionForToken_SomeD)
  define e where "e = (amount p * entryPrice p + sol) / (amount p + amt)"
  let ?p' = "p\<lparr>entryPrice := e, amount := amount p + amt,
                stopLoss := e * (1 - slPct / 100), takeProfit := e * (1 + tpPct / 100)\<rparr>"
  have eq: "addPosition pf now m tName tSymbol entry amt sol slPct tpPct =
              (?p', pf\<lparr>positions := (positions pf)[i := ?p']\<rparr>)"
    using i(1,3) by (simp add: addPosition_def Let_def e_def)
  have cnt: "openCount (snd (addPosition pf now m tName tSymbol entry amt sol slPct tpPct)) m'
                 = openCount pf m'" for m'
    using i(2,3) by (simp add: eq openCount_def isOpenFor_filter_update_same)
  from i(2,3,4,5) cnt
  show "\<exists>i<length (positions pf). \<exists>p'.
          positions pf ! i = p \<and>
          fst (addPosition pf now m tName tSymbol entry amt sol slPct tpPct) = p' \<and>
          positions (snd (addPosition pf now m tName tSymbol entry amt sol slPct tpPct))
            = (positions pf)[i := p'] \<and>
          mint p' = m \<and> status p' = Open \<and> amount p' = amount p + amt \<and>
          (amount p + amt \<noteq> 0 \<longrightarrow>
             entryPrice p' = (amount p * entryPrice p + sol) / (amount p + amt)) \<and>
          stopLoss p' = entryPrice p' * (1 - slPct / 100) \<and>
          takeProfit p' = entryPrice p' * (1 + tpPct / 100) \<and>
          (\<forall>m'. openCount (snd (addPosition pf now m tName tSymbol entry amt sol slPct tpPct)) m'
                 = openCount pf m')"
    by (intro exI[of _ i] exI[of _ ?p'] conjI allI impI) (simp_all add: eq e_def)
qed


text \<open>
  The theorem at the empty portfolio (first buy of token A) and at the portfolio after
  that buy (second buy of 50 units for 60 SOL: entry price 160 / 150, quantity 150).
\<close>

theorem addPosition_one_open_per_mint_witness:
  "getOpenPositionForToken defaultPortfolio ''A'' = None \<and>
   oneOpenPerMint scenarioPortfolio \<and>
   openCount scenarioPortfolio ''A'' = 1 \<and>
   getOpenPositionForToken scenarioPortfolio ''A'' = Some (hd (positions scenarioPortfolio)) \<and>
   oneOpenPerMint (runLedger scenarioPortfolio
      [AddPosition 5 ''A'' ''Token A'' ''TKA'' (6 / 5) 50 60 10 20, ClosePosition ''A'' 2 10 10]) \<and>
   entryPrice (fst (addPosition scenarioPortfolio 5 ''A'' ''Token A'' ''TKA'' (6 / 5) 50 60 10 20))
     = 16 / 15 \<and>
   amount (fst (addPosition scenarioPortfolio 5 ''A'' ''Token A'' ''TKA'' (6 / 5) 50 60 10 20))
     = 150 \<and>
   openCount (snd (addPosition scenarioPortfolio 5 ''A'' ''Token A'' ''TKA'' (6 / 5) 50 60 10 20)) ''A''
     = 1"
proof -
  have none: "getOpenPositionForToken defaultPortfolio ''A'' = None"
    by (simp add: getOpenPositionForToken_def defaultPortfolio_def)
  have first: "oneOpenPerMint scenarioPortfolio \<and> openCount scenarioPortfolio ''A'' = 1"
    using addPosition_one_open_per_mint
      [of defaultPortfolio "[AddPosition 0 ''A'' ''Token A'' ''TKA'' 1 100 100 10 20]"
          "''A''" 0 "''Token A''" "''TKA''" 1 100 100 10 20] none
    by (auto simp: runLedger_def scenarioPortfolio_def)
  have some: "getOpenPositionForToken scenarioPortfolio ''A'' = Some (hd (positions scenarioPortfolio))"
    by (simp add: getOpenPositionForToken_def scenarioPortfolio_eq isOpenFor_def)
  have hd: "hd (positions scenarioPortfolio) =
     \<lparr>mint = ''A'', tokenName = ''Token A'', tokenSymbol = ''TKA'',
                     entryPrice = 1, amount = 100, timestamp = 0, stopLoss = 9 / 10,
                     takeProfit = 6 / 5, status = Open, exitPrice = None, pnl = None\<rparr>"
    by (simp add: scenarioPortfolio_eq)
  from addPosition_one_open_per_mint
      [of scenarioPortfolio
          "[AddPosition 5 ''A'' ''Token A'' ''TKA'' (6 / 5) 50 60 10 20, ClosePosition ''A'' 2 10 10]"
          "''A''" 5 "''Token A''" "''TKA''" "6 / 5" 50 60 10 20] first some
  have "oneOpenPerMint (runLedger scenarioPortfolio
      [AddPosition 5 ''A'' ''Token A'' ''TKA'' (6 / 5) 50 60 10 20, ClosePosition ''A'' 2 10 10]) \<and>
   entryPrice (fst (addPosition scenarioPortfolio 5 ''A'' ''Token A'' ''TKA'' (6 / 5) 50 60 10 20))
     = 16 / 15 \<and>
   amount (fst (addPosition scenarioPortfolio 5 ''A'' ''Token A'' ''TKA'' (6 / 5) 50 60 10 20))
     = 150 \<and>
   openCount (snd (addPosition scenarioPortfolio 5 ''A'' ''Token A'' ''TKA'' (6 / 5) 50 60 10 20)) ''A''
     = 1"
    by (auto simp: hd)
  with none first some show ?thesis by simp
qed


text \<open>
  Claim C4. \<^verbatim>\<open>closePosition\<close> on a mint with no open position returns null and
  leaves the portfolio as it is. On a mint with an open position \<open>p\<close> (the first open
  record of that mint) it adds exactly \<open>(exitPrice - entryPrice p) * quantitySold\<close> to
  the realized P&L; the record is marked closed, with the exit price and that delta as
  its P&L, if and only if \<open>percentSold \<ge> 100\<close> or \<open>quantitySold \<ge> amount p\<close>; otherwise
  its quantity is reduced by \<open>quantitySold\<close> and it stays the open position of the mint,
  so that a partial close can be repeated.
\<close>

theorem closePosition_spec:
  "(getOpenPositionForToken pf m = None \<longrightarrow>
      closePosition pf m exitP amountSold soldPct = (None, pf)) \<and>
   (\<forall>p. getOpenPositionForToken pf m = Some p \<longrightarrow>
      (\<exists>i<length (positions pf). \<exists>p'.
          positions pf ! i = p \<and> (\<forall>j<i. \<not> isOpenFor m (positions pf ! j)) \<and>
          closePosition pf m exitP amountSold soldPct =
            (Some p',
             pf\<lparr>positions := (positions pf)[i := p'],
                realizedPnl := realizedPnl pf + (exitP - entryPrice p) * amountSold\<rparr>) \<and>
          (status p' = Closed \<longleftrightarrow> soldPct \<ge> 100 \<or> amountSold \<ge> amount p) \<and>
          (if soldPct \<ge> 100 \<or> amountSold \<ge> amount p
           then p' = p\<lparr>status := Closed, exitPrice := Some exitP,
                        pnl := Some ((exitP - entryPrice p) * amountSold)\<rparr>
           else p' = p\<lparr>amount := amount p - amountSold\<rparr> \<and>
                getOpenPositionForToken (snd (closePosition pf m exitP amountSold soldPct)) m
                  = Some p')))"
proof (intro conjI allI impI)
  assume "getOpenPositionForToken pf m = None"
  then have "openIndex (positions pf) m = None"
    by (simp add: getOpenPositionForToken_openIndex)
  then show "closePosition pf m exitP amountSold soldPct = (None, pf)"
    by (simp add: closePosition_def)
next
  fix p
  assume "getOpenPositionForToken pf m = Some p"
  then obtain i where i: "openIndex (positions pf) m = Some i" "i < length (positions pf)"
    "positions pf ! i = p" "mint p = m" "status p = Open"
    "\<forall>j<i. \<not> isOpenFor m (positions pf ! j)"
    by (rule getOpenPositionForToken_SomeD)
  have delta: "exitP * amountSold - entryPrice p * amountSold = (exitP - entryPrice p) * amountSold"
    by (simp add: algebra_simps)
  show "\<exists>i<length (positions pf). \<exists>p'.
          positions pf ! i = p \<and> (\<forall>j<i. \<not> isOpenFor m (positions pf ! j)) \<and>
          closePosition pf m exitP amountSold soldPct =
            (Some p',
             pf\<lparr>positions := (positions pf)[i := p'],
                realizedPnl := realizedPnl pf + (exitP - entryPrice p) * amountSold\<rparr>) \<and>
          (status p' = Closed \<longleftrightarrow> soldPct \<ge> 100 \<or> amountSold \<ge> amount p) \<and>
          (if soldPct \<ge> 100 \<or> amountSold \<ge> amount p
           then p' = p\<lparr>status := Closed, exitPrice := Some exitP,
                        pnl := Some ((exitP - entryPrice p) * amountSold)\<rparr>
           else p' = p\<lparr>amount := amount p - amountSold\<rparr> \<and>
                getOpenPositionForToken (snd (closePosition pf m exitP amountSold soldPct)) m
                  = Some p')"
  proof (cases "soldPct \<ge> 100 \<or> amountSold \<ge> amount p")
    case True
    let ?p' = "p\<lparr>status := Closed, exitPrice := Some exitP,
                        pnl := Some ((exitP - entryPrice p) * amountSold)\<rparr>"
    have "closePosition pf m exitP amountSold soldPct =
            (Some ?p', pf\<lparr>positions := (positions pf)[i := ?p'],
                realizedPnl := realizedPnl pf + (exitP - entryPrice p) * amountSold\<rparr>)"
      using True i(1,3) by (simp add: closePosition_def Let_def delta)
    with True i(2,3,6) show ?thesis
      by (intro exI[of _ i] exI[of _ ?p'] conjI) simp_all
  next
    case False
    let ?p' = "p\<lparr>amount := amount p - amountSold\<rparr>"
    have eq: "closePosition pf m exitP amountSold soldPct =
            (Some ?p', pf\<lparr>positions := (positions pf)[i := ?p'],
                realizedPnl := realizedPnl pf + (exitP - entryPrice p) * amountSold\<rparr>)"
      using False i(1,3) by (simp add: closePosition_def Let_def delta)
    have "isOpenFor m ?p'"
      using i(4,5) by (simp add: isOpenFor_def)
    then have "openIndex ((positions pf)[i := ?p']) m = Some i"
      by (rule openIndex_update_still_open[OF i(1)])
    then have still: "getOpenPositionForToken (snd (closePosition pf m exitP amountSold soldPct)) m
                  = Some ?p'"
      using i(2) by (simp add: eq getOpenPositionForToken_openIndex)
    from False i(2,3,5,6) eq still show ?thesis
      by (intro exI[of _ i] exI[of _ ?p'] conjI) simp_all
  qed
qed

text \<open>
  The theorem at the portfolio holding 100 units of token A bought at 1: a partial close
  of 40 units at 1.5, a full close, and a mint that has no position.
\<close>

theorem closePosition_spec_witness:
  "getOpenPositionForToken scenarioPortfolio ''A'' = Some (hd (positions scenarioPortfolio)) \<and>
   realizedPnl (snd (closePosition scenarioPortfolio ''A'' (3 / 2) 40 40)) = 20 \<and>
   map status (positions (snd (closePosition scenarioPortfolio ''A'' (3 / 2) 40 40))) = [Open] \<and>
   map amount (positions (snd (closePosition scenarioPortfolio ''A'' (3 / 2) 40 40))) = [60] \<and>
   realizedPnl (snd (closePosition scenarioPortfolio ''A'' (3 / 2) 100 100)) = 50 \<and>
   map status (positions (snd (closePosition scenarioPortfolio ''A'' (3 / 2) 100 100))) = [Closed] \<and>
   map pnl (positions (snd (closePosition scenarioPortfolio ''A'' (3 / 2) 100 100))) = [Some 50] \<and>
   getOpenPositionForToken scenarioPortfolio ''B'' = None \<and>
   closePosition scenarioPortfolio ''B'' (3 / 2) 100 100 = (None, scenarioPortfolio)"
proof -
  have some: "getOpenPositionForToken scenarioPortfolio ''A'' = Some (hd (positions scenarioPortfolio))"
    by (simp add: getOpenPositionForToken_def scenarioPortfolio_eq isOpenFor_def)
  have none: "getOpenPositionForToken scenarioPortfolio ''B'' = None"
    by (simp add: getOpenPositionForToken_def scenarioPortfolio_eq isOpenFor_def)
  have len: "length (positions scenarioPortfolio) = 1"
    by (simp add: scenarioPortfolio_eq)
  have hd: "hd (positions scenarioPortfolio) =
     \<lparr>mint = ''A'', tokenName = ''Token A'', tokenSymbol = ''TKA'',
                     entryPrice = 1, amount = 100, timestamp = 0, stopLoss = 9 / 10,
                     takeProfit = 6 / 5, status = Open, exitPrice = None, pnl = None\<rparr>"
    by (simp add: scenarioPortfolio_eq)
  have partial: "realizedPnl (snd (closePosition scenarioPortfolio ''A'' (3 / 2) 40 40)) = 20 \<and>
   map status (positions (snd (closePosition scenarioPortfolio ''A'' (3 / 2) 40 40))) = [Open] \<and>
   map amount (positions (snd (closePosition scenarioPortfolio ''A'' (3 / 2) 40 40))) = [60]"
    using closePosition_spec[of scenarioPortfolio "''A''" "3 / 2" 40 40] some len
    by (auto simp: hd scenarioPortfolio_eq)
  have full: "realizedPnl (snd (closePosition scenarioPortfolio ''A'' (3 / 2) 100 100)) = 50 \<and>
   map status (positions (snd (closePosition scenarioPortfolio ''A'' (3 / 2) 100 100))) = [Closed] \<and>
   map pnl (positions (snd (closePosition scenarioPortfolio ''A'' (3 / 2) 100 100))) = [Some 50]"
    using closePosition_spec[of scenarioPortfolio "''A''" "3 / 2" 100 100] some len
    by (auto simp: hd scenarioPortfolio_eq)
  have absent: "closePosition scenarioPortfolio ''B'' (3 / 2) 100 100 = (None, scenarioPortfolio)"
    using closePosition_spec[of scenarioPortfolio "''B''" "3 / 2" 100 100] none by simp
  from some none partial full absent show ?thesis by simp
qed

text \<open>
  Claim C5. Every \<^verbatim>\<open>addPosition\<close> call should add the supplied SOL amount to
  \<open>totalInvestedSol\<close>, merges included. The branch that creates a position does; the
  branch that merges into an open position does not: after a second buy of token A for
  60 SOL the total is still the 100 SOL of the first buy.
\<close>

theorem addPosition_merge_leaves_totalInvestedSol:
  "totalInvestedSol scenarioPortfolio = 100 \<and>
   totalInvestedSol
     (snd (addPosition scenarioPortfolio 5 ''A'' ''Token A'' ''TKA'' (6 / 5) 50 60 10 20)) = 100"
  by (simp add: scenarioPortfolio_eq addPosition_def isOpenFor_def Let_def)

section \<open>Properties of the risk gate\<close>

lemma nextMidnightUTC_bounds:
  "now < nextMidnightUTC now \<and> nextMidnightUTC now \<le> now + msPerDay \<and>
   nextMidnightUTC now mod msPerDay = 0"
proof -
  have pos: "(0::int) < msPerDay" by (simp add: msPerDay_def)
  have eq: "now = (now div msPerDay) * msPerDay + now mod msPerDay" by simp
  have m: "0 \<le> now mod msPerDay" "now mod msPerDay < msPerDay"
    using pos by simp_all
  have "now < (now div msPerDay) * msPerDay + msPerDay"
    using eq m(2) by linarith
  moreover have "(now div msPerDay) * msPerDay + msPerDay \<le> now + msPerDay"
    using eq m(1) by linarith
  ultimately show ?thesis by (simp add: nextMidnightUTC_def utcStartOfDay_def)
qed

lemma nextResetTime_fixedZone: "nextResetTime (fixedZone off) now = nextMidnightUTC now"
  by (simp add: nextResetTime_def setDateToNextDay_def fixedZone_def nextMidnightUTC_def Let_def)

lemma resetDailyVolume_idem:
  "resetDailyVolume tz now (resetDailyVolume tz now rm) = resetDailyVolume tz now rm"
  by (simp add: resetDailyVolume_def)

lemma checkDailyReset_idem:
  "checkDailyReset tz now (checkDailyReset tz now rm) = checkDailyReset tz now rm"
  by (simp add: checkDailyReset_def resetDailyVolume_idem)

lemma checkTrade_state: "snd (checkTrade tz cfg w pf now act m x rm) = checkDailyReset tz now rm"
  by (simp add: checkTrade_def Let_def)


lemma spentRiskManager_eq:
  "spentRiskManager = \<lparr>dailyTradingVolume = 6, dailyResetTimestamp = 86400000\<rparr>"
  by (simp add: spentRiskManager_def trackTradeVolume_def checkDailyReset_def newRiskManager_def
      resetDailyVolume_def nextResetTime_fixedZone nextMidnightUTC_def utcStartOfDay_def
      msPerDay_def Let_def)

lemma getOptimalTradeSize_unfold:
  "getOptimalTradeSize tz cfg w pf now m rm =
     (let rm1 = checkDailyReset tz now rm;
          optimalSize = min (max 0 (getBalance w - gasFeeBuffer))
            (min (getTotalValue pf * (maxPositionSizePercentage (riskManagement cfg) / 100))
              (min (maxDailyTradingVolume (riskManagement cfg) - dailyTradingVolume rm1)
                 (maxTradeAmountSol (trading cfg))))
      in (if optimalSize < minTradeAmountSol (trading cfg) then 0
          else if getOpenPositionForToken pf m = None then optimalSize else optimalSize / 2,
          rm1))"
  by (simp add: getOptimalTradeSize_def getDailyTradingVolume_def maxPositionSizeOf_def Let_def
      split: option.split)


text \<open>
  Claim C2. \<^verbatim>\<open>checkTrade\<close> allows a buy if and only if all five checks pass: balance
  at least the amount plus the fee buffer, daily volume (after the lazy reset) plus the
  amount at most the daily cap, amount at least the minimum trade size, at most the
  maximum trade size, and at most the configured percentage of the portfolio value. The
  checks run in this order and the first that fails gives the reason of the refusal; a
  result is allowed exactly when it carries no reason. A sell is allowed if and only if
  the wallet holds the token, and its result does not depend on the amount.
\<close>

theorem checkTrade_spec:
  "(let rm1 = checkDailyReset tz now rm;
        buy = fst (checkTrade tz cfg w pf now Buy m x rm);
        sell = fst (checkTrade tz cfg w pf now Sell m x rm);
        balance = getBalance w;
        cap = maxDailyTradingVolume (riskManagement cfg);
        minAmount = minTradeAmountSol (trading cfg);
        maxAmount = maxTradeAmountSol (trading cfg);
        pct = maxPositionSizePercentage (riskManagement cfg);
        maxPosition = getTotalValue pf * (pct / 100)
    in snd (checkTrade tz cfg w pf now act m x rm) = rm1 \<and>
       (allowed buy \<longleftrightarrow>
          balance \<ge> x + gasFeeBuffer \<and> dailyTradingVolume rm1 + x \<le> cap \<and>
          x \<ge> minAmount \<and> x \<le> maxAmount \<and> x \<le> maxPosition) \<and>
       (allowed buy \<longleftrightarrow> reason buy = None) \<and>
       (balance < x + gasFeeBuffer \<longrightarrow>
          reason buy = Some (InsufficientBalance balance (x + gasFeeBuffer))) \<and>
       (balance \<ge> x + gasFeeBuffer \<and> dailyTradingVolume rm1 + x > cap \<longrightarrow>
          reason buy = Some (ExceedsDailyVolumeLimit cap)) \<and>
       (balance \<ge> x + gasFeeBuffer \<and> dailyTradingVolume rm1 + x \<le> cap \<and> x < minAmount \<longrightarrow>
          reason buy = Some (BelowMinimum x minAmount)) \<and>
       (balance \<ge> x + gasFeeBuffer \<and> dailyTradingVolume rm1 + x \<le> cap \<and> x \<ge> minAmount \<and>
        x > maxAmount \<longrightarrow>
          reason buy = Some (ExceedsMaximum x maxAmount)) \<and>
       (balance \<ge> x + gasFeeBuffer \<and> dailyTradingVolume rm1 + x \<le> cap \<and> x \<ge> minAmount \<and>
        x \<le> maxAmount \<and> x > maxPosition \<longrightarrow>
          reason buy = Some (ExceedsPositionSize x pct maxPosition)) \<and>
       (allowed sell \<longleftrightarrow> hasToken w m) \<and>
       (allowed sell \<longleftrightarrow> reason sell = None) \<and>
       (\<not> hasToken w m \<longrightarrow> reason sell = Some (TokenNotInWallet m)) \<and>
       sell = fst (checkTrade tz cfg w pf now Sell m y rm))"
  by (simp add: checkTrade_def Let_def maxPositionSizeOf_def not_less)

text \<open>
  The theorem after three tracked buys of 2 SOL under a daily cap of 5: a fourth buy of
  1 SOL is refused for the daily volume, although it also exceeds the maximum trade size,
  which is checked later; a buy of 0.1 SOL on a fresh counter passes; sells are decided
  by the token alone.
\<close>

theorem checkTrade_spec_witness:
  "\<not> allowed (fst (checkTrade (fixedZone 0) defaultConfig richWallet scenarioPortfolio 4000 Buy ''B'' 1
     spentRiskManager)) \<and>
   reason (fst (checkTrade (fixedZone 0) defaultConfig richWallet scenarioPortfolio 4000 Buy ''B'' 1
     spentRiskManager)) = Some (ExceedsDailyVolumeLimit 5) \<and>
   snd (checkTrade (fixedZone 0) defaultConfig richWallet scenarioPortfolio 4000 Buy ''B'' 1 spentRiskManager)
     = spentRiskManager \<and>
   allowed (fst (checkTrade (fixedZone 0) defaultConfig richWallet scenarioPortfolio 4000 Buy ''B'' (1 / 10)
     (newRiskManager (fixedZone 0) 0))) \<and>
   allowed (fst (checkTrade (fixedZone 0) defaultConfig richWallet scenarioPortfolio 4000 Sell ''A'' 0
     spentRiskManager)) \<and>
   reason (fst (checkTrade (fixedZone 0) defaultConfig richWallet scenarioPortfolio 4000 Sell ''B'' 0
     spentRiskManager)) = Some (TokenNotInWallet ''B'')"
proof -
  have r: "checkDailyReset (fixedZone 0) 4000 spentRiskManager = spentRiskManager"
    "dailyTradingVolume spentRiskManager = 6"
    by (simp_all add: checkDailyReset_def spentRiskManager_eq)
  have r0: "checkDailyReset (fixedZone 0) 4000 (newRiskManager (fixedZone 0) 0) = newRiskManager (fixedZone 0) 0"
    "dailyTradingVolume (newRiskManager (fixedZone 0) 0) = 0"
    by (simp_all add: checkDailyReset_def newRiskManager_def resetDailyVolume_def
        nextResetTime_fixedZone nextMidnightUTC_def utcStartOfDay_def msPerDay_def)
  have v: "getTotalValue scenarioPortfolio = 100"
    by (simp add: getTotalValue_def scenarioPortfolio_def addPosition_def defaultPortfolio_def
        Let_def)
  have c: "getBalance richWallet = 10" "hasToken richWallet ''A''" "\<not> hasToken richWallet ''B''"
    "maxDailyTradingVolume (riskManagement defaultConfig) = 5"
    "minTradeAmountSol (trading defaultConfig) = 1 / 100"
    "maxTradeAmountSol (trading defaultConfig) = 1 / 2"
    "maxPositionSizePercentage (riskManagement defaultConfig) = 5"
    by (simp_all add: richWallet_def defaultConfig_def)
  show ?thesis
    using checkTrade_spec[of "fixedZone 0" 4000 spentRiskManager defaultConfig richWallet scenarioPortfolio
        "''B''" 1 Buy 1]
      checkTrade_spec[of "fixedZone 0" 4000 "newRiskManager (fixedZone 0) 0" defaultConfig richWallet scenarioPortfolio
        "''B''" "1 / 10" Buy "1 / 10"]
      checkTrade_spec[of "fixedZone 0" 4000 spentRiskManager defaultConfig richWallet scenarioPortfolio
        "''A''" 0 Sell 0]
      checkTrade_spec[of "fixedZone 0" 4000 spentRiskManager defaultConfig richWallet scenarioPortfolio
        "''B''" 0 Sell 0]
    by (simp add: Let_def r r0 v c gasFeeBuffer_def)
qed

text \<open>
  The lazy reset in a time zone with a fixed offset from UTC. There the next reset the
  source schedules is the midnight UTC that follows \<open>now\<close> (a multiple of one day, after
  \<open>now\<close> and at most one day later). The first call of \<^verbatim>\<open>trackTradeVolume\<close>,
  \<^verbatim>\<open>getDailyTradingVolume\<close> or \<^verbatim>\<open>checkTrade\<close> at or after the scheduled reset
  timestamp sets the counter to 0 and schedules that midnight before the counter is used;
  until that midnight no later call resets again; before the scheduled timestamp nothing
  is reset; \<^verbatim>\<open>trackTradeVolume\<close> then adds the given amount. The counter starts at 0
  and stays non-negative as long as the amounts tracked are non-negative.
\<close>

theorem daily_counter_lazy_reset:
  "(let rm1 = checkDailyReset (fixedZone off) now rm in
      (now \<ge> dailyResetTimestamp rm \<longrightarrow>
         dailyTradingVolume rm1 = 0 \<and> dailyResetTimestamp rm1 = nextMidnightUTC now \<and>
         (\<forall>later. now \<le> later \<and> later < nextMidnightUTC now \<longrightarrow>
            checkDailyReset (fixedZone off) later rm1 = rm1)) \<and>
      (now < dailyResetTimestamp rm \<longrightarrow> rm1 = rm) \<and>
      now < nextMidnightUTC now \<and> nextMidnightUTC now \<le> now + msPerDay \<and>
      nextMidnightUTC now mod msPerDay = 0 \<and>
      trackTradeVolume (fixedZone off) now x rm
        = rm1\<lparr>dailyTradingVolume := dailyTradingVolume rm1 + x\<rparr> \<and>
      getDailyTradingVolume (fixedZone off) now rm = (dailyTradingVolume rm1, rm1) \<and>
      snd (checkTrade (fixedZone off) cfg w pf now act m y rm) = rm1 \<and>
      fst (checkTrade (fixedZone off) cfg w pf now act m y rm)
        = fst (checkTrade (fixedZone off) cfg w pf now act m y rm1) \<and>
      dailyTradingVolume (newRiskManager (fixedZone off) now) = 0 \<and>
      (0 \<le> dailyTradingVolume rm \<longrightarrow>
         0 \<le> dailyTradingVolume rm1 \<and>
         (0 \<le> x \<longrightarrow> 0 \<le> dailyTradingVolume (trackTradeVolume (fixedZone off) now x rm))))"
proof -
  let ?tz = "fixedZone off"
  note b = nextMidnightUTC_bounds[of now]
  have once: "checkDailyReset ?tz later (resetDailyVolume ?tz now rm) = resetDailyVolume ?tz now rm"
    if "later < nextMidnightUTC now" for later
    using that by (simp add: checkDailyReset_def resetDailyVolume_def nextResetTime_fixedZone)
  have same: "fst (checkTrade ?tz cfg w pf now act m y rm)
                = fst (checkTrade ?tz cfg w pf now act m y (checkDailyReset ?tz now rm))"
    by (simp add: checkTrade_def Let_def checkDailyReset_idem)
  show ?thesis
    unfolding Let_def
  proof (intro conjI impI allI)
    assume "dailyResetTimestamp rm \<le> now"
    then show "dailyTradingVolume (checkDailyReset ?tz now rm) = 0"
      and "dailyResetTimestamp (checkDailyReset ?tz now rm) = nextMidnightUTC now"
      by (simp_all add: checkDailyReset_def resetDailyVolume_def nextResetTime_fixedZone)
  next
    fix later
    assume "dailyResetTimestamp rm \<le> now" "now \<le> later \<and> later < nextMidnightUTC now"
    then show "checkDailyReset ?tz later (checkDailyReset ?tz now rm) = checkDailyReset ?tz now rm"
      using once[of later] by (simp add: checkDailyReset_def)
  next
    assume "now < dailyResetTimestamp rm"
    then show "checkDailyReset ?tz now rm = rm" by (simp add: checkDailyReset_def)
  next
    show "now < nextMidnightUTC now" "nextMidnightUTC now \<le> now + msPerDay"
      "nextMidnightUTC now mod msPerDay = 0"
      using b by simp_all
  next
    show "trackTradeVolume ?tz now x rm =
      (checkDailyReset ?tz now rm)
        \<lparr>dailyTradingVolume := dailyTradingVolume (checkDailyReset ?tz now rm) + x\<rparr>"
      by (simp add: trackTradeVolume_def Let_def)
  next
    show "getDailyTradingVolume ?tz now rm =
       (dailyTradingVolume (checkDailyReset ?tz now rm), checkDailyReset ?tz now rm)"
      by (simp add: getDailyTradingVolume_def Let_def)
  next
    show "snd (checkTrade ?tz cfg w pf now act m y rm) = checkDailyReset ?tz now rm"
      by (rule checkTrade_state)
  next
    show "fst (checkTrade ?tz cfg w pf now act m y rm)
                = fst (checkTrade ?tz cfg w pf now act m y (checkDailyReset ?tz now rm))"
      by (rule same)
  next
    show "dailyTradingVolume (newRiskManager ?tz now) = 0"
      by (simp add: newRiskManager_def resetDailyVolume_def)
  next
    assume "0 \<le> dailyTradingVolume rm"
    then show nn: "0 \<le> dailyTradingVolume (checkDailyReset ?tz now rm)"
      by (simp add: checkDailyReset_def resetDailyVolume_def)
    assume "0 \<le> x"
    with nn show "0 \<le> dailyTradingVolume (trackTradeVolume ?tz now x rm)"
      by (simp add: trackTradeVolume_def Let_def)
  qed
qed

text \<open>
  On UTC, with the counter holding 6 SOL and its reset due at the end of day 0: a call
  five seconds into day 1 resets, a call four seconds later does not, and a call during
  day 0 leaves the counter.
\<close>

theorem daily_counter_lazy_reset_witness:
  "dailyResetTimestamp spentRiskManager \<le> 86405000 \<and>
   (0::real) \<le> dailyTradingVolume spentRiskManager \<and> (0::real) \<le> 2 \<and>
   dailyTradingVolume (checkDailyReset (fixedZone 0) 86405000 spentRiskManager) = 0 \<and>
   dailyResetTimestamp (checkDailyReset (fixedZone 0) 86405000 spentRiskManager) = 172800000 \<and>
   dailyTradingVolume (trackTradeVolume (fixedZone 0) 86405000 2 spentRiskManager) = 2 \<and>
   ((86405000 :: int) \<le> 86409000 \<and> (86409000 :: int) < nextMidnightUTC 86405000) \<and>
   checkDailyReset (fixedZone 0) 86409000 (checkDailyReset (fixedZone 0) 86405000 spentRiskManager)
     = checkDailyReset (fixedZone 0) 86405000 spentRiskManager \<and>
   (4000 :: int) < dailyResetTimestamp spentRiskManager \<and>
   checkDailyReset (fixedZone 0) 4000 spentRiskManager = spentRiskManager"
proof -
  let ?tz = "fixedZone 0"
  have n: "nextMidnightUTC 86405000 = 172800000"
    by (simp add: nextMidnightUTC_def utcStartOfDay_def msPerDay_def)
  have s: "dailyResetTimestamp spentRiskManager = 86400000" "dailyTradingVolume spentRiskManager = 6"
    by (simp_all add: spentRiskManager_eq)
  note t = daily_counter_lazy_reset[of 0 86405000 spentRiskManager 2 defaultConfig richWallet
      scenarioPortfolio Buy "''B''" 1, unfolded Let_def]
  from t have a: "dailyTradingVolume (checkDailyReset ?tz 86405000 spentRiskManager) = 0"
    "dailyResetTimestamp (checkDailyReset ?tz 86405000 spentRiskManager) = 172800000"
    by (simp_all add: n s)
  from t have "trackTradeVolume ?tz 86405000 2 spentRiskManager =
      (checkDailyReset ?tz 86405000 spentRiskManager)
        \<lparr>dailyTradingVolume := dailyTradingVolume (checkDailyReset ?tz 86405000 spentRiskManager) + 2\<rparr>"
    by blast
  then have c: "dailyTradingVolume (trackTradeVolume ?tz 86405000 2 spentRiskManager) = 2"
    by (simp add: a)
  from t have "\<forall>later. 86405000 \<le> later \<and> later < nextMidnightUTC 86405000 \<longrightarrow>
            checkDailyReset ?tz later (checkDailyReset ?tz 86405000 spentRiskManager)
              = checkDailyReset ?tz 86405000 spentRiskManager"
    by (simp add: s)
  then have d: "checkDailyReset ?tz 86409000 (checkDailyReset ?tz 86405000 spentRiskManager)
     = checkDailyReset ?tz 86405000 spentRiskManager"
    by (simp add: n)
  from daily_counter_lazy_reset[of 0 4000 spentRiskManager 2 defaultConfig richWallet
      scenarioPortfolio Buy "''B''" 1, unfolded Let_def]
  have b: "checkDailyReset ?tz 4000 spentRiskManager = spentRiskManager"
    by (simp add: s)
  from a b c d s n show ?thesis by simp
qed

text \<open>
  Claim C6. The daily volume counter should reset to 0 exactly once per crossing of
  midnight UTC: the first call at or after the scheduled reset resets the counter and
  schedules the next midnight UTC, and \<^verbatim>\<open>trackTradeVolume\<close> then adds its amount. The
  source cuts the date to 00:00 UTC but advances it by one day of local time. In New York
  on the day the clocks go forward, a risk manager created at 2025-03-09T12:00:00Z
  (1741521600000) schedules its reset for 23:00 UTC of the same day (1741561200000), one
  hour before the midnight UTC that follows (1741564800000). From 23:00 UTC on, every call
  computes the same, already past, timestamp and resets again: of three buys of 2 SOL
  tracked at 13:00, 23:10 and 23:20 UTC of that one UTC day, the counter holds only the
  last, 2 SOL instead of 6, and the reset timestamp still lies in the past.
\<close>

theorem daily_counter_reset_before_midnight:
  "dailyResetTimestamp (newRiskManager newYork2025 1741521600000) = 1741561200000 \<and>
   nextMidnightUTC 1741521600000 = 1741564800000 \<and>
   dailyTradingVolume
     (trackTradeVolume newYork2025 1741525200000 2 (newRiskManager newYork2025 1741521600000)) = 2 \<and>
   dailyTradingVolume
     (trackTradeVolume newYork2025 1741561800000 2
        (trackTradeVolume newYork2025 1741525200000 2
           (newRiskManager newYork2025 1741521600000))) = 2 \<and>
   dailyTradingVolume
     (trackTradeVolume newYork2025 1741562400000 2
        (trackTradeVolume newYork2025 1741561800000 2
           (trackTradeVolume newYork2025 1741525200000 2
              (newRiskManager newYork2025 1741521600000)))) = 2 \<and>
   dailyResetTimestamp
     (trackTradeVolume newYork2025 1741562400000 2
        (trackTradeVolume newYork2025 1741561800000 2
           (trackTradeVolume newYork2025 1741525200000 2
              (newRiskManager newYork2025 1741521600000)))) = 1741561200000"
  by (simp add: trackTradeVolume_def checkDailyReset_def newRiskManager_def resetDailyVolume_def
      nextResetTime_def setDateToNextDay_def utcStartOfDay_def nextMidnightUTC_def
      newYork2025_def msPerDay_def Let_def)

text \<open>
  Claim C1, as amended. Let \<open>bound\<close> be the minimum of the claim (balance minus fee
  buffer, portfolio value times the maximum position percentage, daily cap minus the
  daily volume after the lazy reset, maximum trade amount) and \<open>clamped\<close> the same
  minimum with the balance term cut off at 0, which is what the source computes; the two
  agree when the balance covers the fee buffer. The returned amount never exceeds
  \<open>max 0 bound\<close>, and never exceeds \<open>bound\<close> when \<open>bound\<close> is not negative. The call
  returns 0 when \<open>clamped\<close> is below the minimum trade amount, and so when \<open>bound\<close>
  is, for a minimum trade amount that is not negative. Otherwise it returns \<open>clamped\<close>
  for a token without open position and half of it for a token with one.
\<close>

theorem getOptimalTradeSize_bound:
  "(let rm1 = checkDailyReset tz now rm;
        others = min (getTotalValue pf * (maxPositionSizePercentage (riskManagement cfg) / 100))
                   (min (maxDailyTradingVolume (riskManagement cfg) - dailyTradingVolume rm1)
                      (maxTradeAmountSol (trading cfg)));
        bound = min (getBalance w - gasFeeBuffer) others;
        clamped = min (max 0 (getBalance w - gasFeeBuffer)) others;
        size = fst (getOptimalTradeSize tz cfg w pf now m rm)
    in snd (getOptimalTradeSize tz cfg w pf now m rm) = rm1 \<and>
       size \<le> max 0 bound \<and>
       (0 \<le> bound \<longrightarrow> size \<le> bound) \<and>
       (gasFeeBuffer \<le> getBalance w \<longrightarrow> clamped = bound) \<and>
       (clamped < minTradeAmountSol (trading cfg) \<longrightarrow> size = 0) \<and>
       (bound < minTradeAmountSol (trading cfg) \<and> 0 \<le> minTradeAmountSol (trading cfg) \<longrightarrow>
          size = 0) \<and>
       (minTradeAmountSol (trading cfg) \<le> clamped \<longrightarrow>
          size = (if getOpenPositionForToken pf m = None then clamped else clamped / 2)))"
proof -
  define rm1 where "rm1 = checkDailyReset tz now rm"
  define rest where "rest =
     min (getTotalValue pf * (maxPositionSizePercentage (riskManagement cfg) / 100))
       (min (maxDailyTradingVolume (riskManagement cfg) - dailyTradingVolume rm1)
          (maxTradeAmountSol (trading cfg)))"
  define b where "b = getBalance w - gasFeeBuffer"
  define lo where "lo = minTradeAmountSol (trading cfg)"
  define size where "size = fst (getOptimalTradeSize tz cfg w pf now m rm)"
  have st: "snd (getOptimalTradeSize tz cfg w pf now m rm) = rm1"
    by (simp add: getOptimalTradeSize_unfold Let_def rm1_def)
  have sz: "size = (if min (max 0 b) rest < lo then 0
                    else if getOpenPositionForToken pf m = None then min (max 0 b) rest
                    else min (max 0 b) rest / 2)"
    by (simp add: size_def getOptimalTradeSize_unfold Let_def rm1_def rest_def b_def lo_def)
  have 1: "size \<le> max 0 (min b rest)"
    unfolding sz by (auto simp: min_def max_def)
  have 2: "0 \<le> min b rest \<Longrightarrow> size \<le> min b rest"
    unfolding sz by (auto simp: min_def max_def split: if_splits)
  have 3: "0 \<le> b \<Longrightarrow> min (max 0 b) rest = min b rest"
    by (simp add: max_def)
  have 4: "min (max 0 b) rest < lo \<Longrightarrow> size = 0"
    unfolding sz by simp
  have 5: "min b rest < lo \<Longrightarrow> 0 \<le> lo \<Longrightarrow> size = 0"
    unfolding sz by (auto simp: min_def max_def split: if_splits)
  have 6: "lo \<le> min (max 0 b) rest \<Longrightarrow>
             size = (if getOpenPositionForToken pf m = None then min (max 0 b) rest
                     else min (max 0 b) rest / 2)"
    unfolding sz by (simp add: not_less[symmetric] del: min_less_iff_disj min.bounded_iff)
  have b0: "gasFeeBuffer \<le> getBalance w \<Longrightarrow> 0 \<le> b"
    by (simp add: b_def)
  from st 1 2 3 4 5 6 b0 show ?thesis
    unfolding Let_def size_def[symmetric] b_def[symmetric] rest_def[symmetric]
      lo_def[symmetric] rm1_def[symmetric]
    by blast
qed

text \<open>
  Claim C1 as stated bounds the result by \<open>bound\<close> itself. With a balance of 0 (what a
  failed balance query gives) the bound is \<open>- 0.01\<close> and the call returns 0.
\<close>

theorem getOptimalTradeSize_bound_counterexample:
  "\<not> fst (getOptimalTradeSize (fixedZone 0) defaultConfig emptyWallet defaultPortfolio 1000 ''A''
           (newRiskManager (fixedZone 0) 0))
      \<le> min (getBalance emptyWallet - gasFeeBuffer)
          (min (getTotalValue defaultPortfolio
                  * (maxPositionSizePercentage (riskManagement defaultConfig) / 100))
            (min (maxDailyTradingVolume (riskManagement defaultConfig)
                    - dailyTradingVolume (checkDailyReset (fixedZone 0) 1000 (newRiskManager (fixedZone 0) 0)))
               (maxTradeAmountSol (trading defaultConfig))))"
  by (simp add: getOptimalTradeSize_unfold Let_def defaultConfig_def emptyWallet_def
      defaultPortfolio_def getTotalValue_def gasFeeBuffer_def checkDailyReset_def
      newRiskManager_def resetDailyVolume_def nextResetTime_fixedZone nextMidnightUTC_def
      utcStartOfDay_def msPerDay_def)

text \<open>
  The amended theorem on three calls: balance 1, portfolio value 2 and 5 percent give
  0.1; a token with an open position gets half of the maximum trade amount; an empty
  wallet gets 0.
\<close>

theorem getOptimalTradeSize_bound_witness:
  "gasFeeBuffer \<le> getBalance \<lparr>getBalance = 1, hasToken = (\<lambda>m. False)\<rparr> \<and>
   fst (getOptimalTradeSize (fixedZone 0)
          (defaultConfig\<lparr>riskManagement :=
             \<lparr>maxDailyTradingVolume = 3, maxPositionSizePercentage = 5\<rparr>\<rparr>)
          \<lparr>getBalance = 1, hasToken = (\<lambda>m. False)\<rparr>
          (defaultPortfolio\<lparr>totalInvestedSol := 2\<rparr>) 1000 ''A'' (newRiskManager (fixedZone 0) 0)) = 1 / 10 \<and>
   getOpenPositionForToken scenarioPortfolio ''A'' \<noteq> None \<and>
   fst (getOptimalTradeSize (fixedZone 0) defaultConfig richWallet scenarioPortfolio 1000 ''A''
          (newRiskManager (fixedZone 0) 0)) = 1 / 4 \<and>
   fst (getOptimalTradeSize (fixedZone 0) defaultConfig emptyWallet scenarioPortfolio 1000 ''A''
          (newRiskManager (fixedZone 0) 0)) = 0"
proof -
  have r0: "checkDailyReset (fixedZone 0) 1000 (newRiskManager (fixedZone 0) 0) = newRiskManager (fixedZone 0) 0"
    "dailyTradingVolume (newRiskManager (fixedZone 0) 0) = 0"
    by (simp_all add: checkDailyReset_def newRiskManager_def resetDailyVolume_def
        nextResetTime_fixedZone nextMidnightUTC_def utcStartOfDay_def msPerDay_def)
  have v: "getTotalValue scenarioPortfolio = 100"
    "getTotalValue (defaultPortfolio\<lparr>totalInvestedSol := 2\<rparr>) = 2"
    by (simp_all add: getTotalValue_def scenarioPortfolio_eq defaultPortfolio_def)
  have o: "getOpenPositionForToken scenarioPortfolio ''A'' \<noteq> None"
    "getOpenPositionForToken (defaultPortfolio\<lparr>totalInvestedSol := 2\<rparr>) ''A'' = None"
    by (simp_all add: getOpenPositionForToken_def scenarioPortfolio_eq defaultPortfolio_def
        isOpenFor_def)
  have c: "getBalance richWallet = 10" "getBalance emptyWallet = 0"
    "maxDailyTradingVolume (riskManagement defaultConfig) = 5"
    "minTradeAmountSol (trading defaultConfig) = 1 / 100"
    "maxTradeAmountSol (trading defaultConfig) = 1 / 2"
    "maxPositionSizePercentage (riskManagement defaultConfig) = 5"
    by (simp_all add: richWallet_def emptyWallet_def defaultConfig_def)
  have a1: "fst (getOptimalTradeSize (fixedZone 0)
          (defaultConfig\<lparr>riskManagement :=
             \<lparr>maxDailyTradingVolume = 3, maxPositionSizePercentage = 5\<rparr>\<rparr>)
          \<lparr>getBalance = 1, hasToken = (\<lambda>m. False)\<rparr>
          (defaultPortfolio\<lparr>totalInvestedSol := 2\<rparr>) 1000 ''A'' (newRiskManager (fixedZone 0) 0)) = 1 / 10"
    using getOptimalTradeSize_bound[of "fixedZone 0" 1000 "newRiskManager (fixedZone 0) 0"
        "defaultPortfolio\<lparr>totalInvestedSol := 2\<rparr>"
        "defaultConfig\<lparr>riskManagement :=
             \<lparr>maxDailyTradingVolume = 3, maxPositionSizePercentage = 5\<rparr>\<rparr>"
        "\<lparr>getBalance = 1, hasToken = (\<lambda>m. False)\<rparr>" "''A''"]
    by (simp add: Let_def r0 v o c gasFeeBuffer_def)
  have a2: "fst (getOptimalTradeSize (fixedZone 0) defaultConfig richWallet scenarioPortfolio 1000 ''A''
          (newRiskManager (fixedZone 0) 0)) = 1 / 4"
    using getOptimalTradeSize_bound[of "fixedZone 0" 1000 "newRiskManager (fixedZone 0) 0" scenarioPortfolio defaultConfig
        richWallet "''A''"]
    by (simp add: Let_def r0 v o c gasFeeBuffer_def)
  have a3: "fst (getOptimalTradeSize (fixedZone 0) defaultConfig emptyWallet scenarioPortfolio 1000 ''A''
          (newRiskManager (fixedZone 0) 0)) = 0"
    using getOptimalTradeSize_bound[of "fixedZone 0" 1000 "newRiskManager (fixedZone 0) 0" scenarioPortfolio defaultConfig
        emptyWallet "''A''"]
    by (simp add: Let_def r0 v o c gasFeeBuffer_def)
  from a1 a2 a3 o show ?thesis by (simp add: gasFeeBuffer_def)
qed

section \<open>Properties of the exit strategy\<close>

text \<open>
  Claim C9, as amended. For a trade event and an enabled exit strategy,
  \<^verbatim>\<open>shouldTrade\<close> returns true if and only if the mint has an open position, the
  rate limiter lets the mint through (at least \<open>minProcessingIntervalMs\<close> have passed
  since the mint was last let through, or since time 0 for a mint never seen) and the
  price of the event is at most the stop-loss or at least the take-profit of that
  position.
\<close>

theorem exit_fires_iff:
  assumes "isEnabled s"
  shows "fst (PositionManagement_shouldTrade pf s now (TokenTradeEvent d)) \<longleftrightarrow>
     (\<exists>p. getOpenPositionForToken pf (ttMint d) = Some p \<and>
          minProcessingIntervalMs s
            \<le> real_of_int (now - (case lastProcessedTime s (ttMint d) of None \<Rightarrow> 0 | Some t \<Rightarrow> t)) \<and>
          (ttPrice d \<le> stopLoss p \<or> takeProfit p \<le> ttPrice d))"
proof (cases "getOpenPositionForToken pf (ttMint d)")
  case None
  with assms show ?thesis
    by (simp add: PositionManagement_shouldTrade_def Let_def)
next
  case (Some p)
  then have "status p = Open"
    by (rule getOpenPositionForToken_SomeD)
  with assms Some show ?thesis
    by (auto simp: PositionManagement_shouldTrade_def Let_def shouldProcessToken_def
        updateTokenPrice_def shouldExitPosition_def not_less)
qed

text \<open>
  The amended theorem on the position of token A (stop-loss 0.9, take-profit 1.2) and a
  fresh strategy: a trade at 0.89 fires, a trade at 1.0 does not.
\<close>

theorem exit_fires_iff_witness:
  "isEnabled newPositionManagementStrategy \<and>
   fst (PositionManagement_shouldTrade scenarioPortfolio newPositionManagementStrategy 1000000
          (TokenTradeEvent (tradeOfA (89 / 100) 1000000))) \<and>
   \<not> fst (PositionManagement_shouldTrade scenarioPortfolio newPositionManagementStrategy 1000000
          (TokenTradeEvent (tradeOfA 1 1000000)))"
proof -
  have e: "isEnabled newPositionManagementStrategy"
    by (simp add: newPositionManagementStrategy_def)
  have c: "lastProcessedTime newPositionManagementStrategy ''A'' = None"
    "minProcessingIntervalMs newPositionManagementStrategy = 10000"
    by (simp_all add: newPositionManagementStrategy_def)
  have o: "getOpenPositionForToken scenarioPortfolio ''A'' = Some (hd (positions scenarioPortfolio))"
    "stopLoss (hd (positions scenarioPortfolio)) = 9 / 10"
    "takeProfit (hd (positions scenarioPortfolio)) = 6 / 5"
    by (simp_all add: getOpenPositionForToken_def scenarioPortfolio_eq isOpenFor_def)
  show ?thesis
    using exit_fires_iff[OF e, of scenarioPortfolio 1000000 "tradeOfA (89 / 100) 1000000"]
      exit_fires_iff[OF e, of scenarioPortfolio 1000000 "tradeOfA 1 1000000"]
    by (simp add: e c o tradeOfA_def)
qed

text \<open>
  Claim C9 as stated leaves the rate limiter out. A trade at 1.0 is let through at time
  1000000; four seconds later a trade at 0.89, below the stop-loss of the open position,
  is held back by the limiter and the strategy does not fire.
\<close>

theorem exit_rate_limited_counterexample:
  "\<not> (fst (PositionManagement_shouldTrade scenarioPortfolio
             (snd (PositionManagement_shouldTrade scenarioPortfolio newPositionManagementStrategy
                     1000000 (TokenTradeEvent (tradeOfA 1 1000000))))
             1004000 (TokenTradeEvent (tradeOfA (89 / 100) 1004000)))
       \<longleftrightarrow>
       (\<exists>p. getOpenPositionForToken scenarioPortfolio (ttMint (tradeOfA (89 / 100) 1004000)) = Some p \<and>
            (ttPrice (tradeOfA (89 / 100) 1004000) \<le> stopLoss p \<or>
             takeProfit p \<le> ttPrice (tradeOfA (89 / 100) 1004000))))"
proof -
  have o: "getOpenPositionForToken scenarioPortfolio ''A'' = Some (hd (positions scenarioPortfolio))"
    "stopLoss (hd (positions scenarioPortfolio)) = 9 / 10"
    "takeProfit (hd (positions scenarioPortfolio)) = 6 / 5"
    "status (hd (positions scenarioPortfolio)) = Open"
    by (simp_all add: getOpenPositionForToken_def scenarioPortfolio_eq isOpenFor_def)
  show ?thesis
    by (simp add: PositionManagement_shouldTrade_def Let_def shouldProcessToken_def
        updateTokenPrice_def shouldExitPosition_def newPositionManagementStrategy_def
        tradeOfA_def o)
qed

section \<open>Properties of the new-token strategy\<close>

text \<open>
  The phrase filter at work: with the blocked phrase \<open>Scam\<close>, a token named
  \<open>Super SCAM Coin\<close> is refused and a token named \<open>Super Coin\<close> is accepted.
\<close>

lemma Sniper_blocked_phrase_refused:
  "\<not> fst (Sniper_shouldTrade ((newSniperStrategy defaultConfig)\<lparr>blockedPhrases := [''Scam'']\<rparr>)
      1000
      (NewTokenEvent \<lparr>ntMint = ''Z'', ntName = ''Super SCAM Coin'', ntSymbol = ''SSC'',
         createdAt = 900, creatorAddress = ''creator''\<rparr>))"
  by code_simp

lemma Sniper_unblocked_phrase_accepted:
  "fst (Sniper_shouldTrade ((newSniperStrategy defaultConfig)\<lparr>blockedPhrases := [''Scam'']\<rparr>)
      1000
      (NewTokenEvent \<lparr>ntMint = ''Z'', ntName = ''Super Coin'', ntSymbol = ''SSC'',
         createdAt = 900, creatorAddress = ''creator''\<rparr>))"
  by code_simp

lemma Sniper_shouldTrade_True:
  assumes "Sniper_shouldTrade s now event = (True, s')"
  obtains d where "event = NewTokenEvent d" "ntMint d \<notin> processed s"
    "processed s' = insert (ntMint d) (processed s)"
  using assms
  by (cases event) (auto simp: Sniper_shouldTrade_def Let_def split: if_splits)

lemma Sniper_shouldTrade_False:
  assumes "Sniper_shouldTrade s now event = (False, s')"
  shows "s' = s"
  using assms
  by (cases event) (auto simp: Sniper_shouldTrade_def Let_def split: if_splits)

lemma Sniper_run_accepts:
  "distinct (fst (Sniper_run s evs)) \<and> set (fst (Sniper_run s evs)) \<inter> processed s = {} \<and>
   processed (snd (Sniper_run s evs)) = processed s \<union> set (fst (Sniper_run s evs))"
proof (induction evs arbitrary: s)
  case Nil
  show ?case by simp
next
  case (Cons ev evs)
  obtain now event where ev: "ev = (now, event)" by (cases ev)
  obtain b s1 where st: "Sniper_shouldTrade s now event = (b, s1)"
    by (cases "Sniper_shouldTrade s now event")
  show ?case
  proof (cases b)
    case False
    with st have "s1 = s" by (simp add: Sniper_shouldTrade_False)
    with Cons.IH[of s] st False ev show ?thesis by simp
  next
    case True
    with st obtain d where d: "event = NewTokenEvent d" "ntMint d \<notin> processed s"
      "processed s1 = insert (ntMint d) (processed s)"
      by (auto elim: Sniper_shouldTrade_True)
    have run: "Sniper_run s (ev # evs) = (ntMint d # fst (Sniper_run s1 evs), snd (Sniper_run s1 evs))"
      using st True ev d(1) by simp
    from Cons.IH[of s1] d(2,3) show ?thesis
      unfolding run by auto
  qed
qed


text \<open>
  Claim C8. Over any sequence of invocations the strategy accepts a mint at most once:
  the list of accepted mints has no duplicate, contains no mint that was processed
  before, and the processed set grows by exactly the accepted mints. An event is accepted
  if and only if the strategy is enabled, the mint is not yet processed, and the age,
  blocked-creator and blocked-phrase checks pass; accepting adds the mint to the
  processed set in the same call; and every later new-token event with a processed mint
  is refused, at any time, with the state unchanged.
\<close>

theorem Sniper_accepts_each_mint_once:
  "distinct (fst (Sniper_run s evs)) \<and>
   set (fst (Sniper_run s evs)) \<inter> processed s = {} \<and>
   processed (snd (Sniper_run s evs)) = processed s \<union> set (fst (Sniper_run s evs)) \<and>
   (fst (Sniper_shouldTrade s now (NewTokenEvent d)) \<longleftrightarrow>
      isEnabled s \<and> ntMint d \<notin> processed s \<and>
      real_of_int now - createdAt d \<le> maxAgeMs s \<and>
      creatorAddress d \<notin> blockedCreators s \<and>
      \<not> list_ex (\<lambda>phrase. includesStr (toLowerCase (ntName d) @ '' '' @ toLowerCase (ntSymbol d))
                    (toLowerCase phrase)) (blockedPhrases s)) \<and>
   (fst (Sniper_shouldTrade s now (NewTokenEvent d)) \<longrightarrow>
      processed (snd (Sniper_shouldTrade s now (NewTokenEvent d)))
        = insert (ntMint d) (processed s)) \<and>
   (ntMint d \<in> processed s \<longrightarrow> Sniper_shouldTrade s now' (NewTokenEvent d) = (False, s))"
proof -
  have "fst (Sniper_shouldTrade s now (NewTokenEvent d)) \<longleftrightarrow>
      isEnabled s \<and> ntMint d \<notin> processed s \<and>
      real_of_int now - createdAt d \<le> maxAgeMs s \<and>
      creatorAddress d \<notin> blockedCreators s \<and>
      \<not> list_ex (\<lambda>phrase. includesStr (toLowerCase (ntName d) @ '' '' @ toLowerCase (ntSymbol d))
                    (toLowerCase phrase)) (blockedPhrases s)"
    by (simp add: Sniper_shouldTrade_def Let_def not_less)
  moreover have "fst (Sniper_shouldTrade s now (NewTokenEvent d)) \<longrightarrow>
      processed (snd (Sniper_shouldTrade s now (NewTokenEvent d)))
        = insert (ntMint d) (processed s)"
    by (simp add: Sniper_shouldTrade_def Let_def)
  moreover have "ntMint d \<in> processed s \<longrightarrow> Sniper_shouldTrade s now' (NewTokenEvent d) = (False, s)"
    by (simp add: Sniper_shouldTrade_def)
  ultimately show ?thesis
    using Sniper_run_accepts[of s evs] by blast
qed

text \<open>
  The theorem on four events: mint X, X again, Y, X again. X and Y are accepted once.
\<close>

theorem Sniper_accepts_each_mint_once_witness:
  "fst (Sniper_run (newSniperStrategy defaultConfig)
          [(1000, NewTokenEvent (newTokenOf ''X'' 900)),
           (2000, NewTokenEvent (newTokenOf ''X'' 1900)),
           (3000, NewTokenEvent (newTokenOf ''Y'' 2900)),
           (4000, NewTokenEvent (newTokenOf ''X'' 3900))]) = [''X'', ''Y''] \<and>
   fst (Sniper_shouldTrade (newSniperStrategy defaultConfig) 1000
          (NewTokenEvent (newTokenOf ''X'' 900))) \<and>
   ntMint (newTokenOf ''X'' 1900)
     \<in> processed (snd (Sniper_shouldTrade (newSniperStrategy defaultConfig) 1000
          (NewTokenEvent (newTokenOf ''X'' 900)))) \<and>
   \<not> fst (Sniper_shouldTrade
            (snd (Sniper_shouldTrade (newSniperStrategy defaultConfig) 1000
                    (NewTokenEvent (newTokenOf ''X'' 900))))
            2000 (NewTokenEvent (newTokenOf ''X'' 1900)))"
proof -
  have run: "fst (Sniper_run (newSniperStrategy defaultConfig)
          [(1000, NewTokenEvent (newTokenOf ''X'' 900)),
           (2000, NewTokenEvent (newTokenOf ''X'' 1900)),
           (3000, NewTokenEvent (newTokenOf ''Y'' 2900)),
           (4000, NewTokenEvent (newTokenOf ''X'' 3900))]) = [''X'', ''Y'']"
    by (simp add: Sniper_shouldTrade_def newSniperStrategy_def newTokenOf_def Let_def)
  have acc: "fst (Sniper_shouldTrade (newSniperStrategy defaultConfig) 1000
          (NewTokenEvent (newTokenOf ''X'' 900)))"
    by (simp add: Sniper_shouldTrade_def newSniperStrategy_def newTokenOf_def Let_def)
  note t1 = Sniper_accepts_each_mint_once[of "newSniperStrategy defaultConfig"
      "[(1000, NewTokenEvent (newTokenOf ''X'' 900)),
        (2000, NewTokenEvent (newTokenOf ''X'' 1900)),
        (3000, NewTokenEvent (newTokenOf ''Y'' 2900)),
        (4000, NewTokenEvent (newTokenOf ''X'' 3900))]" 1000 "newTokenOf ''X'' 900" 1000]
  from t1 acc have p: "processed (snd (Sniper_shouldTrade (newSniperStrategy defaultConfig) 1000
          (NewTokenEvent (newTokenOf ''X'' 900)))) = insert ''X'' (processed (newSniperStrategy defaultConfig))"
    by (simp add: newTokenOf_def)
  then have mem: "ntMint (newTokenOf ''X'' 1900)
     \<in> processed (snd (Sniper_shouldTrade (newSniperStrategy defaultConfig) 1000
          (NewTokenEvent (newTokenOf ''X'' 900))))"
    by (simp add: newTokenOf_def)
  from Sniper_accepts_each_mint_once[of
      "snd (Sniper_shouldTrade (newSniperStrategy defaultConfig) 1000
          (NewTokenEvent (newTokenOf ''X'' 900)))" "[]" 2000 "newTokenOf ''X'' 1900" 2000] mem
  have rej: "\<not> fst (Sniper_shouldTrade
            (snd (Sniper_shouldTrade (newSniperStrategy defaultConfig) 1000
                    (NewTokenEvent (newTokenOf ''X'' 900))))
            2000 (NewTokenEvent (newTokenOf ''X'' 1900)))"
    by simp
  from run acc mem rej show ?thesis by simp
qed

section \<open>Properties of the strategy pipeline\<close>






section \<open>Properties of the momentum strategy\<close>

lemma cooldownStamped_iff:
  "cooldownStamped s m t0 \<longleftrightarrow>
     (\<exists>data. map_of (tokenData s) m = Some data \<and> lastBuyAttempt data = real_of_int t0 \<and>
        (\<exists>x \<in> set (trades data). real_of_int t0 - tradeTimestamp x < timeWindowMs s))"
  by (auto simp: cooldownStamped_def list_ex_iff split: option.splits)

lemma cooldownStamped_cong:
  assumes "map_of (tokenData s') m = map_of (tokenData s) m" "timeWindowMs s' = timeWindowMs s"
  shows "cooldownStamped s' m t0 = cooldownStamped s m t0"
  using assms by (simp add: cooldownStamped_iff)

lemma map_of_filter_keep:
  "map_of al k = Some v \<Longrightarrow> P (k, v) \<Longrightarrow> map_of (filter P al) k = Some v"
  by (induction al) (auto split: if_splits)

lemma sort_key_hd_least:
  assumes "x \<in> set xs"
  shows "sort_key f xs \<noteq> [] \<and> f (hd (sort_key f xs)) \<le> f x"
proof -
  let ?ys = "sort_key f xs"
  from assms have mem: "x \<in> set ?ys" by simp
  from assms have "length xs \<noteq> 0" by auto
  then have "length ?ys \<noteq> 0" by simp
  then have ne: "?ys \<noteq> []" by (simp only: length_0_conv) simp
  then obtain y ys where ys: "?ys = y # ys" by (cases ?ys) auto
  have "sorted (map f ?ys)" by (rule sorted_sort_key)
  with ys mem have "f y \<le> f x" by auto
  with ne ys show ?thesis by simp
qed

lemma trimmed_keeps_newest:
  assumes "x \<in> set xs" "0 < n"
  shows "\<exists>y \<in> set (take n (sort_key (\<lambda>trade. - tradeTimestamp trade) xs)).
           tradeTimestamp x \<le> tradeTimestamp y"
proof -
  let ?ys = "sort_key (\<lambda>trade. - tradeTimestamp trade) xs"
  from sort_key_hd_least[OF assms(1), of "\<lambda>trade. - tradeTimestamp trade"]
  have ne: "?ys \<noteq> []" and le: "tradeTimestamp x \<le> tradeTimestamp (hd ?ys)" by simp_all
  from ne assms(2) have "hd ?ys \<in> set (take n ?ys)"
    by (cases ?ys; cases n) simp_all
  with le show ?thesis by blast
qed

lemma updateTokenData_config:
  "cooldownPeriodMs (updateTokenData d s) = cooldownPeriodMs s"
  "timeWindowMs (updateTokenData d s) = timeWindowMs s"
  "isEnabled (updateTokenData d s) = isEnabled s"
  by (simp_all add: updateTokenData_def Let_def)

lemma cleanupOldData_config:
  "cooldownPeriodMs (cleanupOldData now s) = cooldownPeriodMs s"
  "timeWindowMs (cleanupOldData now s) = timeWindowMs s"
  "isEnabled (cleanupOldData now s) = isEnabled s"
  by (simp_all add: cleanupOldData_def Let_def)

lemma checkMomentum_config:
  "cooldownPeriodMs (snd (checkMomentum now m s)) = cooldownPeriodMs s"
  "timeWindowMs (snd (checkMomentum now m s)) = timeWindowMs s"
  "isEnabled (snd (checkMomentum now m s)) = isEnabled s"
  by (simp_all add: checkMomentum_def Let_def split: option.split list.split)

lemma Momentum_shouldTrade_config:
  "cooldownPeriodMs (snd (Momentum_shouldTrade s now event)) = cooldownPeriodMs s"
  "timeWindowMs (snd (Momentum_shouldTrade s now event)) = timeWindowMs s"
  by (cases event;
      simp add: Momentum_shouldTrade_def checkMomentum_config cleanupOldData_config
        updateTokenData_config)+

lemma updateTokenData_other:
  "k \<noteq> ttMint d \<Longrightarrow> map_of (tokenData (updateTokenData d s)) k = map_of (tokenData s) k"
  by (simp add: updateTokenData_def Let_def update_conv')

lemma updateTokenData_same:
  assumes "map_of (tokenData s) (ttMint d) = Some data"
  shows "\<exists>data'. map_of (tokenData (updateTokenData d s)) (ttMint d) = Some data' \<and>
    lastBuyAttempt data' = lastBuyAttempt data \<and>
    trades data' = take maxTradeHistory (sort_key (\<lambda>trade. - tradeTimestamp trade)
        (trades data @
           [\<lparr>action = ttAction d, price = ttPrice d, amountSol = ttAmountSol d,
             trader = ttTrader d, tradeTimestamp = ttTimestamp d\<rparr>]))"
proof (cases "ttSymbol d")
  case None
  with assms show ?thesis
    by (simp add: updateTokenData_def Let_def update_conv')
next
  case (Some newSymbol)
  with assms show ?thesis
    by (cases "newSymbol = []") (simp_all add: updateTokenData_def Let_def update_conv')
qed

lemma updateTokenData_stamped:
  assumes "cooldownStamped s m t0"
  shows "cooldownStamped (updateTokenData d s) m t0"
proof (cases "ttMint d = m")
  case False
  then have "map_of (tokenData (updateTokenData d s)) m = map_of (tokenData s) m"
    by (intro updateTokenData_other) simp
  from cooldownStamped_cong[OF this updateTokenData_config(2)] assms show ?thesis
    by simp
next
  case True
  from assms obtain data x where data: "map_of (tokenData s) m = Some data"
    "lastBuyAttempt data = real_of_int t0"
    and x: "x \<in> set (trades data)" "real_of_int t0 - tradeTimestamp x < timeWindowMs s"
    unfolding cooldownStamped_iff by blast
  define pushed where "pushed = trades data @
           [\<lparr>action = ttAction d, price = ttPrice d, amountSol = ttAmountSol d,
             trader = ttTrader d, tradeTimestamp = ttTimestamp d\<rparr>]"
  from data(1) True have "map_of (tokenData s) (ttMint d) = Some data" by simp
  from updateTokenData_same[OF this]
  obtain data' where data': "map_of (tokenData (updateTokenData d s)) (ttMint d) = Some data'"
    "lastBuyAttempt data' = lastBuyAttempt data"
    "trades data' = take maxTradeHistory (sort_key (\<lambda>trade. - tradeTimestamp trade) pushed)"
    unfolding pushed_def by (elim exE conjE)
  from x(1) have xin: "x \<in> set pushed" by (simp add: pushed_def)
  have pos: "0 < maxTradeHistory" by (simp add: maxTradeHistory_def)
  from trimmed_keeps_newest[OF xin pos]
  obtain y where y: "y \<in> set (take maxTradeHistory
                         (sort_key (\<lambda>trade. - tradeTimestamp trade) pushed))"
    "tradeTimestamp x \<le> tradeTimestamp y"
    by (elim bexE)
  from y(1) have yin: "y \<in> set (trades data')" by (simp only: data'(3))
  from y(2) x(2) have "real_of_int t0 - tradeTimestamp y < timeWindowMs s" by simp
  with yin have "\<exists>x \<in> set (trades data'). real_of_int t0 - tradeTimestamp x < timeWindowMs s"
    by (rule bexI[rotated])
  moreover from data'(1) True have "map_of (tokenData (updateTokenData d s)) m = Some data'"
    by simp
  moreover from data'(2) data(2) have "lastBuyAttempt data' = real_of_int t0" by simp
  ultimately
  have "\<exists>data. map_of (tokenData (updateTokenData d s)) m = Some data \<and>
           lastBuyAttempt data = real_of_int t0 \<and>
           (\<exists>x \<in> set (trades data). real_of_int t0 - tradeTimestamp x < timeWindowMs s)"
    by (intro exI[of _ data'] conjI)
  then show ?thesis
    unfolding cooldownStamped_iff updateTokenData_config .
qed

lemma cleanupOldData_stamped:
  assumes "cooldownStamped s m t0" "real_of_int (now - t0) \<le> 60 * 60 * 1000"
  shows "cooldownStamped (cleanupOldData now s) m t0"
proof (cases "real_of_int (now - lastCleanupTime s) < cleanupIntervalMs s")
  case True
  with assms(1) show ?thesis by (simp add: cleanupOldData_def)
next
  case False
  from assms(1) obtain data where data: "map_of (tokenData s) m = Some data"
    "lastBuyAttempt data = real_of_int t0"
    and ex: "list_ex (\<lambda>trade. real_of_int t0 - tradeTimestamp trade < timeWindowMs s) (trades data)"
    by (auto simp: cooldownStamped_def split: option.splits)
  then obtain x where x: "x \<in> set (trades data)"
    "real_of_int t0 - tradeTimestamp x < timeWindowMs s"
    by (auto simp: list_ex_iff)
  let ?cutoff = "real_of_int now - timeWindowMs s - 60 * 60 * 1000"
  from x(2) assms(2) have "tradeTimestamp x > ?cutoff" by simp
  with x(1) have "hasRecentTrades ?cutoff data"
    unfolding hasRecentTrades_def list_ex_iff by blast
  then have "map_of (filter (\<lambda>(m, data). hasRecentTrades ?cutoff data) (tokenData s)) m = Some data"
    using data(1) by (intro map_of_filter_keep) simp_all
  with False data(2) ex show ?thesis
    by (simp add: cooldownStamped_def cleanupOldData_def Let_def)
qed

lemma checkMomentum_other:
  "k \<noteq> m \<Longrightarrow> map_of (tokenData (snd (checkMomentum now k s))) m = map_of (tokenData s) m"
  by (auto simp: checkMomentum_def Let_def update_conv' split: option.split list.split)

lemma checkMomentum_stamped:
  assumes "cooldownStamped s m t0" "real_of_int (now - t0) < cooldownPeriodMs s"
  shows "cooldownStamped (snd (checkMomentum now k s)) m t0"
    and "k = m \<Longrightarrow> checkMomentum now k s = (Inr False, s)"
proof -
  from assms(1) obtain data where data: "map_of (tokenData s) m = Some data"
    "lastBuyAttempt data = real_of_int t0"
    by (auto simp: cooldownStamped_def split: option.splits)
  show same: "checkMomentum now k s = (Inr False, s)" if "k = m"
    using that data assms(2) by (simp add: checkMomentum_def)
  show "cooldownStamped (snd (checkMomentum now k s)) m t0"
  proof (cases "k = m")
    case True
    with same assms(1) show ?thesis by simp
  next
    case False
    then have "map_of (tokenData (snd (checkMomentum now k s))) m = map_of (tokenData s) m"
      by (rule checkMomentum_other)
    from cooldownStamped_cong[OF this checkMomentum_config(2)] assms(1) show ?thesis
      by simp
  qed
qed

lemma Momentum_shouldTrade_stamped:
  assumes "cooldownStamped s m t0" "real_of_int (now - t0) < cooldownPeriodMs s"
    "cooldownPeriodMs s \<le> 60 * 60 * 1000"
  shows "cooldownStamped (snd (Momentum_shouldTrade s now event)) m t0"
    and "event = TokenTradeEvent d \<Longrightarrow> ttMint d = m \<Longrightarrow>
           fst (Momentum_shouldTrade s now event) = Inr False"
proof -
  have step: "cooldownStamped (cleanupOldData now (updateTokenData d' s)) m t0" for d'
    using assms by (intro cleanupOldData_stamped updateTokenData_stamped) simp_all
  have cd: "real_of_int (now - t0) < cooldownPeriodMs (cleanupOldData now (updateTokenData d' s))"
    for d'
    using assms(2) by (simp add: cleanupOldData_config updateTokenData_config)
  show "cooldownStamped (snd (Momentum_shouldTrade s now event)) m t0"
    using assms(1) checkMomentum_stamped(1)[OF step cd]
    by (cases event) (simp_all add: Momentum_shouldTrade_def)
  show "fst (Momentum_shouldTrade s now event) = Inr False"
    if "event = TokenTradeEvent d" "ttMint d = m"
    using that checkMomentum_stamped(2)[OF step cd, of m d]
    by (simp add: Momentum_shouldTrade_def)
qed

lemma Momentum_run_config:
  "cooldownPeriodMs (Momentum_run s evs) = cooldownPeriodMs s"
  by (induction s evs rule: Momentum_run.induct) (simp_all add: Momentum_shouldTrade_config)

lemma Momentum_run_stamped:
  assumes "cooldownStamped s m t0" "cooldownPeriodMs s \<le> 60 * 60 * 1000"
    "\<forall>(t, e) \<in> set evs. real_of_int (t - t0) < cooldownPeriodMs s"
  shows "cooldownStamped (Momentum_run s evs) m t0"
  using assms
proof (induction s evs rule: Momentum_run.induct)
  case (1 s)
  then show ?case by simp
next
  case (2 s now event rest)
  let ?s1 = "snd (Momentum_shouldTrade s now event)"
  from 2 have "cooldownStamped ?s1 m t0"
    by (intro Momentum_shouldTrade_stamped(1)) simp_all
  moreover have "cooldownPeriodMs ?s1 = cooldownPeriodMs s"
    by (simp add: Momentum_shouldTrade_config)
  ultimately show ?case using 2 by simp
qed

lemma checkMomentum_True_stamped:
  assumes "checkMomentum now m s = (Inr True, s1)"
  shows "cooldownStamped s1 m now"
proof -
  from assms obtain data where data: "map_of (tokenData s) m = Some data"
    by (auto simp: checkMomentum_def split: option.splits)
  let ?recent = "filter (\<lambda>trade. real_of_int now - tradeTimestamp trade < timeWindowMs s)
                         (trades data)"
  from assms data have ne: "?recent \<noteq> []"
    and s1: "s1 = s\<lparr>tokenData := AList.update m (data\<lparr>lastBuyAttempt := real_of_int now\<rparr>)
                                           (tokenData s)\<rparr>"
    by (auto simp: checkMomentum_def Let_def split: if_splits list.splits)
  from ne obtain x where "x \<in> set ?recent" by (cases ?recent) auto
  then have "list_ex (\<lambda>trade. real_of_int now - tradeTimestamp trade < timeWindowMs s) (trades data)"
    unfolding list_ex_iff by auto
  then show ?thesis
    by (simp add: cooldownStamped_def s1 update_conv')
qed

lemma Momentum_shouldTrade_True_stamped:
  assumes "Momentum_shouldTrade s now (TokenTradeEvent d) = (Inr True, s1)"
  shows "cooldownStamped s1 (ttMint d) now"
  using assms
  by (auto simp: Momentum_shouldTrade_def split: if_splits intro: checkMomentum_True_stamped)

lemmas momentum_eval =
  fourTradesOfA_def tradeOfA_def tradeOfB_def newMomentumStrategy_def Momentum_shouldTrade_def
  updateTokenData_def cleanupOldData_def checkMomentum_def priceIncreaseBelow_def
  hasRecentTrades_def maxTradeHistory_def Let_def

text \<open>
  The cooldown within the retention buffer of the sweep. When \<^verbatim>\<open>shouldTrade\<close>
  detects momentum for a token at time \<open>t0\<close>, the state it returns already carries the
  stamp \<open>t0\<close> for that token, before any sizing, risk check or execution. If the
  configured cooldown period is at most one hour, then after any sequence of further
  invocations that read clock values within the cooldown period of \<open>t0\<close> (trade events
  of this or other tokens, which may qualify, and events of other types),
  \<^verbatim>\<open>shouldTrade\<close> returns false for every trade event of that token arriving within
  the cooldown period of \<open>t0\<close>. One hour is the buffer the periodic sweep adds to the
  analysis window: within it the sweep cannot delete the token's entry, which holds the
  stamp.
\<close>

theorem momentum_cooldown_blocks:
  assumes "Momentum_shouldTrade s t0 (TokenTradeEvent d0) = (Inr True, s1)"
    and "cooldownPeriodMs s \<le> 60 * 60 * 1000"
    and "\<forall>(t, e) \<in> set evs. real_of_int (t - t0) < cooldownPeriodMs s"
    and "real_of_int (t1 - t0) < cooldownPeriodMs s"
    and "ttMint d = ttMint d0"
  shows "(\<exists>data. map_of (tokenData s1) (ttMint d0) = Some data \<and>
              lastBuyAttempt data = real_of_int t0) \<and>
         fst (Momentum_shouldTrade (Momentum_run s1 evs) t1 (TokenTradeEvent d)) = Inr False"
proof -
  from assms(1) have st: "cooldownStamped s1 (ttMint d0) t0"
    by (rule Momentum_shouldTrade_True_stamped)
  from assms(1) have "s1 = snd (Momentum_shouldTrade s t0 (TokenTradeEvent d0))" by simp
  then have cfg: "cooldownPeriodMs s1 = cooldownPeriodMs s"
    by (simp add: Momentum_shouldTrade_config)
  from st assms(2,3) cfg have run: "cooldownStamped (Momentum_run s1 evs) (ttMint d0) t0"
    by (intro Momentum_run_stamped) simp_all
  have cfg': "cooldownPeriodMs (Momentum_run s1 evs) = cooldownPeriodMs s"
    by (simp add: Momentum_run_config cfg)
  from assms(2,4) cfg'
  have "fst (Momentum_shouldTrade (Momentum_run s1 evs) t1 (TokenTradeEvent d)) = Inr False"
    by (intro Momentum_shouldTrade_stamped(2)[OF run, of _ _ d] assms(5)) simp_all
  moreover from st have "\<exists>data. map_of (tokenData s1) (ttMint d0) = Some data \<and>
              lastBuyAttempt data = real_of_int t0"
    unfolding cooldownStamped_iff by blast
  ultimately show ?thesis by simp
qed

text \<open>
  With the default parameters (five trades, 0.5 SOL, 5 percent, ten minutes of
  cooldown): the fifth trade of token A, at 1.06, fires; trades of A thirty and sixty
  seconds later, at higher prices, do not.
\<close>

theorem momentum_cooldown_blocks_witness:
  "fst (Momentum_shouldTrade
          (Momentum_run (newMomentumStrategy 999999000) (fourTradesOfA 1000000000))
          1000004000 (TokenTradeEvent (tradeOfA (106 / 100) 1000004000))) = Inr True \<and>
   cooldownPeriodMs (Momentum_run (newMomentumStrategy 999999000) (fourTradesOfA 1000000000))
     = 600000 \<and>
   fst (Momentum_shouldTrade
          (Momentum_run
             (snd (Momentum_shouldTrade
                (Momentum_run (newMomentumStrategy 999999000) (fourTradesOfA 1000000000))
                1000004000 (TokenTradeEvent (tradeOfA (106 / 100) 1000004000))))
             [(1000034000, TokenTradeEvent (tradeOfA (108 / 100) 1000034000))])
          1000064000 (TokenTradeEvent (tradeOfA (110 / 100) 1000064000))) = Inr False"
proof -
  let ?s = "Momentum_run (newMomentumStrategy 999999000) (fourTradesOfA 1000000000)"
  let ?e = "TokenTradeEvent (tradeOfA (106 / 100) 1000004000)"
  have fire: "fst (Momentum_shouldTrade ?s 1000004000 ?e) = Inr True"
    by (simp add: momentum_eval)
  then have h1: "Momentum_shouldTrade ?s 1000004000 ?e
                   = (Inr True, snd (Momentum_shouldTrade ?s 1000004000 ?e))"
    by (simp add: prod_eq_iff)
  have c: "cooldownPeriodMs ?s = 600000"
    by (simp add: Momentum_run_config newMomentumStrategy_def)
  have h2: "cooldownPeriodMs ?s \<le> 60 * 60 * 1000" by (simp add: c)
  have h3: "\<forall>(t, e) \<in> set [(1000034000, TokenTradeEvent (tradeOfA (108 / 100) 1000034000))].
              real_of_int (t - 1000004000) < cooldownPeriodMs ?s"
    by (simp add: c)
  have h4: "real_of_int (1000064000 - 1000004000) < cooldownPeriodMs ?s" by (simp add: c)
  have h5: "ttMint (tradeOfA (110 / 100) 1000064000) = ttMint (tradeOfA (106 / 100) 1000004000)"
    by (simp add: tradeOfA_def)
  from momentum_cooldown_blocks[OF h1 h2 h3 h4 h5] fire c show ?thesis by simp
qed

text \<open>
  Claim C7. Once momentum is detected for a token, the cooldown is stamped at once, and
  \<^verbatim>\<open>shouldTrade\<close> should return false for every later trade event of that token
  arriving within the configured cooldown period of the stamp, however many qualifying
  trades arrive. The source keeps the stamp in the token's entry of \<open>tokenData\<close>, and the
  periodic sweep deletes that entry once all its trades are older than the analysis window
  plus one hour. With a cooldown of 120 minutes and otherwise default parameters, token A
  fires at time 1000004000; sixty-six minutes later a trade of token B runs the sweep,
  which deletes the entry of A, stamp included; five new trades of A then fire again at
  time 1004004000, less than 67 minutes after the stamp and inside the cooldown.
\<close>

theorem momentum_cooldown_lost_after_sweep:
  "fst (Momentum_shouldTrade
          (Momentum_run (Momentum_configureCooldown 120 (newMomentumStrategy 999999000))
             (fourTradesOfA 1000000000))
          1000004000 (TokenTradeEvent (tradeOfA (106 / 100) 1000004000))) = Inr True \<and>
   real_of_int (1004004000 - 1000004000)
     < cooldownPeriodMs (Momentum_configureCooldown 120 (newMomentumStrategy 999999000)) \<and>
   fst (Momentum_shouldTrade
          (Momentum_run
             (snd (Momentum_shouldTrade
                (Momentum_run
                   (Momentum_configureCooldown 120 (newMomentumStrategy 999999000))
                   (fourTradesOfA 1000000000))
                1000004000 (TokenTradeEvent (tradeOfA (106 / 100) 1000004000))))
             ((1003964000, TokenTradeEvent (tradeOfB 1 1003964000)) # fourTradesOfA 1004000000))
          1004004000 (TokenTradeEvent (tradeOfA (106 / 100) 1004004000))) = Inr True"
  by (simp add: momentum_eval Momentum_configureCooldown_def)

end
